theory Spec2Isabelle
  imports Complex_Main
begin

section \<open>Exceptions\<close>

text \<open>
  Every \<^verbatim>\<open>raise\<close> of the client is a value. The two \<^verbatim>\<open>RuntimeError\<close>s the
  client raises itself carry Korean messages; they are told apart by a tag. Errors of
  the collaborators that are not part of the modelled sources (HTTP transport, market
  code tables, pandas conversions) are wrapped in \<open>External\<close>.
\<close>

datatype runtime_msg =
    AccountNotSet             \<comment> \<open>get_kr_buyable_cash, no account configured\<close>
  | OsMarketOrderUnsupported  \<comment> \<open>_send_os_order, price <= 0\<close>

datatype exn =
    RuntimeError runtime_msg
  | KeyError string
  | ValueError string
  | IndexError
  | TypeError string
  | AttributeError string string   \<comment> \<open>type of the object, attribute asked for\<close>
  | External string

section \<open>oversea_info.py\<close>

datatype Country = USA | HK | JP | CN_SHA | CN_SZX | VN

datatype Market = NASD | NYSE | AMEX | SEHK | TKSE | SHAA | SZAA | HASE | VNSE

fun Country_value :: "Country \<Rightarrow> int" where
  "Country_value USA = 0"
| "Country_value HK = 1"
| "Country_value JP = 2"
| "Country_value CN_SHA = 3"
| "Country_value CN_SZX = 4"
| "Country_value VN = 5"

fun Country_name :: "Country \<Rightarrow> string" where
  "Country_name USA = ''USA''"
| "Country_name HK = ''HK''"
| "Country_name JP = ''JP''"
| "Country_name CN_SHA = ''CN_SHA''"
| "Country_name CN_SZX = ''CN_SZX''"
| "Country_name VN = ''VN''"

fun Market_value :: "Market \<Rightarrow> int" where
  "Market_value NASD = 0"
| "Market_value NYSE = 1"
| "Market_value AMEX = 2"
| "Market_value SEHK = 10"
| "Market_value TKSE = 20"
| "Market_value SHAA = 30"
| "Market_value SZAA = 40"
| "Market_value HASE = 50"
| "Market_value VNSE = 51"

fun Market_name :: "Market \<Rightarrow> string" where
  "Market_name NASD = ''NASD''"
| "Market_name NYSE = ''NYSE''"
| "Market_name AMEX = ''AMEX''"
| "Market_name SEHK = ''SEHK''"
| "Market_name TKSE = ''TKSE''"
| "Market_name SHAA = ''SHAA''"
| "Market_name SZAA = ''SZAA''"
| "Market_name HASE = ''HASE''"
| "Market_name VNSE = ''VNSE''"

text \<open>The members of each enum in definition order, as iterating the class yields them.\<close>

definition Country_members :: "Country list" where
  "Country_members = [USA, HK, JP, CN_SHA, CN_SZX, VN]"

definition Market_members :: "Market list" where
  "Market_members = [NASD, NYSE, AMEX, SEHK, TKSE, SHAA, SZAA, HASE, VNSE]"

definition Country_get_all :: "string list" where
  "Country_get_all = map Country_name Country_members"

definition Market_get_all :: "string list" where
  "Market_get_all = map Market_name Market_members"

text \<open>\<^verbatim>\<open>Market[code]\<close>: lookup by member name, \<^verbatim>\<open>KeyError\<close> when there is none.\<close>

definition Market_getitem :: "string \<Rightarrow> exn + Market" where
  "Market_getitem code =
     (case find (\<lambda>m. Market_name m = code) Market_members of
        None \<Rightarrow> Inl (KeyError code)
      | Some m \<Rightarrow> Inr m)"

text \<open>\<^verbatim>\<open>Country(v)\<close>: lookup by value, \<^verbatim>\<open>ValueError\<close> when no member has it.\<close>

definition Country_call :: "int \<Rightarrow> exn + Country" where
  "Country_call v =
     (case find (\<lambda>c. Country_value c = v) Country_members of
        None \<Rightarrow> Inl (ValueError ''not a valid Country'')
      | Some c \<Rightarrow> Inr c)"

definition get_country_by_market_code :: "string \<Rightarrow> exn + string" where
  "get_country_by_market_code code =
     (case Market_getitem code of
        Inl e \<Rightarrow> Inl e
      | Inr m \<Rightarrow>
          (let val = Market_value m in
           case Market_getitem code of
             Inl e \<Rightarrow> Inl e
           | Inr m' \<Rightarrow>
               (let country_val = Market_value m' div 10 in
                case Country_call country_val of
                  Inl e \<Rightarrow> Inl e
                | Inr c \<Rightarrow> Inr (Country_name c))))"

section \<open>Requests, responses and the transport\<close>

text \<open>
  A JSON object whose values are strings is a dictionary; request parameters and headers
  are looked up by key only, so they are maps. The rows of a response keep their key
  order, so they are association lists.
\<close>

type_synonym json = "string \<rightharpoonup> string"

type_synonym jrecord = "(string \<times> string) list"

text \<open>
  One element of \<^verbatim>\<open>res.outputs\<close>: the server sends either a list of row objects or a
  single object.
\<close>

datatype api_output = Rows "jrecord list" | Single jrecord

record account =
  account_code :: string
  product_code :: string

text \<open>
  \<^verbatim>\<open>APIRequestParameter(url_path, tr_id, params, requires_authentication, requires_hash,
  extra_header)\<close>. The class is not among the sources, so the defaults of the optional
  arguments are unknown: \<open>None\<close> records that the caller did not pass the argument.
\<close>

record APIRequestParameter =
  url_path :: string
  tr_id :: "string option"
  params :: json
  requires_authentication :: "bool option"
  requires_hash :: "bool option"
  extra_header :: "json option"

text \<open>
  \<^verbatim>\<open>APIResponse\<close>: \<open>ok\<close> is \<^verbatim>\<open>is_ok()\<close>, \<open>tr_cont\<close> the continuation flag of the
  response header, \<open>forward_key\<close> and \<open>next_key\<close> the continuation cursor the server
  returns (the spec's ContinuationState), \<open>body\<close> the scalar fields of the body,
  \<open>body_output\<close> its entry \<^verbatim>\<open>output\<close> (\<open>None\<close> when the body has none).
\<close>

record APIResponse =
  ok :: bool
  tr_cont :: string
  forward_key :: string
  next_key :: string
  body :: json
  body_output :: "api_output option"
  outputs :: "api_output list"

datatype http_verb = GET | POST

text \<open>What reaches the transport for one HTTP request.\<close>

record wire =
  verb :: http_verb
  request :: APIRequestParameter
  hashkey :: "string option"
  raise_flag :: bool

text \<open>
  The HTTP layer (\<^verbatim>\<open>send_get_request\<close>, \<^verbatim>\<open>send_post_request\<close>) is an external
  collaborator, and so are URL selection, header assembly and the access token
  (\<^verbatim>\<open>_parse_headers\<close>), which sit between the request object and the wire. They are one
  parameter of every operation: a deterministic server that answers a request, knowing
  all earlier requests, with a response or with a transport error.
\<close>

type_synonym transport = "wire list \<Rightarrow> wire \<Rightarrow> string + APIResponse"

text \<open>
  The client object. \<open>sent\<close> is the trace of HTTP requests issued so far, oldest first: it
  stands for the effect of the client on the outside world.
\<close>

record Api =
  account :: "account option"
  domain_is_real :: bool
  sent :: "wire list"

type_synonym 'a action = "Api \<Rightarrow> (exn + 'a) \<times> Api"

definition send_wire :: "transport \<Rightarrow> wire \<Rightarrow> APIResponse action" where
  "send_wire http w s =
     ((case http (sent s) w of Inl e \<Rightarrow> Inl (External e) | Inr res \<Rightarrow> Inr res),
      s\<lparr>sent := sent s @ [w]\<rparr>)"

definition Api_send_get_request ::
  "transport \<Rightarrow> APIRequestParameter \<Rightarrow> bool \<Rightarrow> APIResponse action" where
  "Api_send_get_request http req raise s =
     send_wire http \<lparr>verb = GET, request = req, hashkey = None, raise_flag = raise\<rparr> s"

text \<open>
  \<^verbatim>\<open>get_hash_key\<close> posts the parameters to \<^verbatim>\<open>/uapi/hashkey\<close> with
  \<^verbatim>\<open>requires_hash=False\<close>, so the nested \<^verbatim>\<open>_send_post_request\<close> goes to the wire
  directly; \<^verbatim>\<open>_send_post_request\<close> asks for the hash first when the request requires it.
\<close>

definition get_hash_key :: "transport \<Rightarrow> json \<Rightarrow> string action" where
  "get_hash_key http ps s =
     (let req = \<lparr>url_path = ''/uapi/hashkey'', tr_id = None, params = ps,
                 requires_authentication = Some False, requires_hash = Some False,
                 extra_header = None\<rparr> in
      case send_wire http \<lparr>verb = POST, request = req, hashkey = None, raise_flag = True\<rparr> s of
        (Inl e, s') \<Rightarrow> (Inl e, s')
      | (Inr response, s') \<Rightarrow>
          (case body response ''HASH'' of
             None \<Rightarrow> (Inl (KeyError ''HASH''), s')
           | Some h \<Rightarrow> (Inr h, s')))"

definition Api_send_post_request ::
  "transport \<Rightarrow> APIRequestParameter \<Rightarrow> bool \<Rightarrow> APIResponse action" where
  "Api_send_post_request http req raise s =
     (if requires_hash req = Some True
      then (case get_hash_key http (params req) s of
              (Inl e, s') \<Rightarrow> (Inl e, s')
            | (Inr h, s') \<Rightarrow>
                send_wire http
                  \<lparr>verb = POST, request = req, hashkey = Some h, raise_flag = raise\<rparr> s')
      else send_wire http \<lparr>verb = POST, request = req, hashkey = None, raise_flag = raise\<rparr> s)"

section \<open>Helpers of the utility modules\<close>

text \<open>
  Modelled from the spec: \<^verbatim>\<open>none_to_empty_dict\<close> is defined in the utility modules, which
  are not among the sources. The cursor is "None for the first call", and the request
  builders merge what this helper returns: an absent dictionary counts as the empty one.
\<close>

definition none_to_empty_dict :: "json option \<Rightarrow> json" where
  "none_to_empty_dict j = (case j of None \<Rightarrow> Map.empty | Some d \<Rightarrow> d)"

text \<open>
  Modelled from the spec: \<^verbatim>\<open>merge_json\<close> is defined in the utility modules, which are not
  among the sources. The spec has the cursor fields "merged into the parameters of the
  next request": a later dictionary overrides an earlier one key by key.
\<close>

definition merge_json :: "json list \<Rightarrow> json" where
  "merge_json js = foldl (++) Map.empty js"

text \<open>
  Modelled from the spec: \<^verbatim>\<open>get_continuous_query_code\<close> is defined in the request
  utility module, which is not among the sources. The spec's query-code selector is a
  two-way choice, code "1" for domestic and code "3" for overseas.
\<close>

definition get_continuous_query_code :: "bool \<Rightarrow> string" where
  "get_continuous_query_code is_kr = (if is_kr then ''1'' else ''3'')"

section \<open>public_api.py: balance requests\<close>

text \<open>
  \<^verbatim>\<open>self.account.account_code\<close> with no account configured is an attribute lookup on
  \<^verbatim>\<open>None\<close>.
\<close>

definition no_account :: exn where
  "no_account = AttributeError ''NoneType'' ''account_code''"

text \<open>
  \<open>py_int\<close> stands for Python's \<^verbatim>\<open>int\<close> applied to a string (\<open>None\<close> is its
  \<^verbatim>\<open>ValueError\<close>).
\<close>

definition get_kr_buyable_cash :: "transport \<Rightarrow> (string \<Rightarrow> int option) \<Rightarrow> int action" where
  "get_kr_buyable_cash http py_int s =
     (let url_path = ''/uapi/domestic-stock/v1/trading/inquire-daily-ccld'';
          tr_id = ''TTTC8908R'' in
      case account s of
        None \<Rightarrow> (Inl (RuntimeError AccountNotSet), s)
      | Some a \<Rightarrow>
          (let stock_code = '''';
               qry_price = ''0'';
               ps = [''CANO'' \<mapsto> account_code a,
                     ''ACNT_PRDT_CD'' \<mapsto> product_code a,
                     ''PDNO'' \<mapsto> stock_code,
                     ''ORD_UNPR'' \<mapsto> qry_price,
                     ''ORD_DVSN'' \<mapsto> ''02'',
                     ''CMA_EVLU_AMT_ICLD_YN'' \<mapsto> ''Y'',
                     ''OVRS_ICLD_YN'' \<mapsto> ''N''];
               req = \<lparr>url_path = url_path, tr_id = Some tr_id, params = ps,
                      requires_authentication = None, requires_hash = None,
                      extra_header = None\<rparr> in
           case Api_send_get_request http req True s of
             (Inl e, s') \<Rightarrow> (Inl e, s')
           | (Inr res, s') \<Rightarrow>
               (case outputs res of
                  [] \<Rightarrow> (Inl IndexError, s')
                | Rows rs # _ \<Rightarrow> (Inl (TypeError ''list indices must be integers''), s')
                | Single out # _ \<Rightarrow>
                    (case map_of out ''ord_psbl_cash'' of
                       None \<Rightarrow> (Inl (KeyError ''ord_psbl_cash''), s')
                     | Some v \<Rightarrow>
                         (case py_int v of
                            None \<Rightarrow> (Inl (ValueError v), s')
                          | Some n \<Rightarrow> (Inr n, s'))))))"

definition get_total_balance ::
  "transport \<Rightarrow> bool \<Rightarrow> json option \<Rightarrow> json option \<Rightarrow> APIResponse action" where
  "get_total_balance http is_kr extra_header0 extra_param0 s =
     (let (url_path, tr_id) =
            (if is_kr
             then (''/uapi/domestic-stock/v1/trading/inquire-balance'', ''TTTC8434R'')
             else (''/uapi/overseas-stock/v1/trading/inquire-balance'', ''JTTT3012R''));
          extra_header1 = none_to_empty_dict extra_header0;
          extra_param = none_to_empty_dict extra_param0;
          extra_header2 = merge_json [[''tr_cont'' \<mapsto> ''''], extra_header1];
          query_code = get_continuous_query_code is_kr in
      case account s of
        None \<Rightarrow> (Inl no_account, s)
      | Some a \<Rightarrow>
          (let ps0 = [''CANO'' \<mapsto> account_code a,
                      ''ACNT_PRDT_CD'' \<mapsto> product_code a,
                      (''CTX_AREA_FK'' @ query_code) \<mapsto> '''',
                      (''CTX_AREA_NK'' @ query_code) \<mapsto> ''''];
               ps = merge_json [ps0, extra_param];
               req = \<lparr>url_path = url_path, tr_id = Some tr_id, params = ps,
                      requires_authentication = None, requires_hash = None,
                      extra_header = Some extra_header2\<rparr> in
           Api_send_get_request http req True s))"

text \<open>
  \<open>currency\<close> stands for \<^verbatim>\<open>get_currency_code_from_market_code\<close> of the utility module
  (\<open>Inl\<close> when it raises). The fixed delay before the request has no effect on the
  result.
\<close>

definition get_os_total_balance ::
  "transport \<Rightarrow> (string \<Rightarrow> string + string) \<Rightarrow> string \<Rightarrow> json option \<Rightarrow> json option \<Rightarrow>
   APIResponse action" where
  "get_os_total_balance http currency market_code extra_header0 extra_param0 s =
     (case currency market_code of
        Inl e \<Rightarrow> (Inl (External e), s)
      | Inr currency_code \<Rightarrow>
          (let extra_param = merge_json [[''OVRS_EXCG_CD'' \<mapsto> market_code,
                                          ''TR_CRCY_CD'' \<mapsto> currency_code],
                                         none_to_empty_dict extra_param0];
               is_kr = False in
           get_total_balance http is_kr extra_header0 (Some extra_param) s))"

definition get_kr_total_balance ::
  "transport \<Rightarrow> json option \<Rightarrow> json option \<Rightarrow> APIResponse action" where
  "get_kr_total_balance http extra_header0 extra_param0 s =
     (let extra_param = merge_json [[''AFHR_FLPR_YN'' \<mapsto> ''N'',
                                     ''FNCG_AMT_AUTO_RDPT_YN'' \<mapsto> ''N'',
                                     ''FUND_STTL_ICLD_YN'' \<mapsto> ''N'',
                                     ''INQR_DVSN'' \<mapsto> ''01'',
                                     ''OFL_YN'' \<mapsto> ''N'',
                                     ''PRCS_DVSN'' \<mapsto> ''01'',
                                     ''UNPR_DVSN'' \<mapsto> ''01''],
                                    none_to_empty_dict extra_param0];
          is_kr = True in
      get_total_balance http is_kr extra_header0 (Some extra_param) s)"

text \<open>\<^verbatim>\<open>get_kr_deposit\<close> reads the first row of the second output of one balance request.\<close>

definition get_kr_deposit :: "transport \<Rightarrow> (string \<Rightarrow> int option) \<Rightarrow> int action" where
  "get_kr_deposit http py_int s =
     (case get_kr_total_balance http None None s of
        (Inl e, s') \<Rightarrow> (Inl e, s')
      | (Inr res, s') \<Rightarrow>
          (case drop 1 (outputs res) of
             [] \<Rightarrow> (Inl IndexError, s')
           | Single out # _ \<Rightarrow> (Inl (KeyError ''0''), s')
           | Rows [] # _ \<Rightarrow> (Inl IndexError, s')
           | Rows (r # _) # _ \<Rightarrow>
               (case map_of r ''prvs_rcdl_excc_amt'' of
                  None \<Rightarrow> (Inl (KeyError ''prvs_rcdl_excc_amt''), s')
                | Some v \<Rightarrow>
                    (case py_int v of
                       None \<Rightarrow> (Inl (ValueError v), s')
                     | Some n \<Rightarrow> (Inr n, s')))))"

section \<open>Tabular results\<close>

text \<open>
  pandas is an external library. A frame is modelled by its sequence of rows, each row an
  index label and the cells of its columns in column order; every frame with no rows is
  the one empty frame \<^verbatim>\<open>pd.DataFrame()\<close>. All frames of one query come from the same row
  mapper, so they have the same columns: the alignment of differing columns by
  \<^verbatim>\<open>pd.concat\<close> is not modelled.
\<close>

datatype cell = Text string | Integer int | Number real | Datetime nat | NaN

record row =
  label :: cell
  cells :: "(string \<times> cell) list"

type_synonym DataFrame = "row list"

text \<open>Keep the first element of every class of \<open>key\<close>, in order of first appearance.\<close>

primrec first_seen :: "('a \<Rightarrow> 'k) \<Rightarrow> 'k list \<Rightarrow> 'a list \<Rightarrow> 'a list" where
  "first_seen key seen [] = []"
| "first_seen key seen (x # xs) =
     (if key x \<in> set seen then first_seen key seen xs
      else x # first_seen key (key x # seen) xs)"

definition DataFrame_of_records :: "jrecord list \<Rightarrow> DataFrame" where
  "DataFrame_of_records rs =
     (let cols = first_seen (\<lambda>c. c) [] (concat (map (map fst) rs)) in
      map (\<lambda>(i, r).
             \<lparr>label = Integer (int i),
              cells = map (\<lambda>c. (c, case map_of r c of None \<Rightarrow> NaN | Some v \<Rightarrow> Text v)) cols\<rparr>)
          (enumerate 0 rs))"

definition pd_DataFrame :: "api_output \<Rightarrow> exn + DataFrame" where
  "pd_DataFrame out =
     (case out of
        Rows rs \<Rightarrow> Inr (DataFrame_of_records rs)
      | Single d \<Rightarrow>
          (if d = [] then Inr []
           else Inl (ValueError ''If using all scalar values, you must pass an index'')))"

definition output_len :: "api_output \<Rightarrow> nat" where
  "output_len out = (case out of Rows rs \<Rightarrow> length rs | Single d \<Rightarrow> length d)"

definition df_columns :: "DataFrame \<Rightarrow> string list" where
  "df_columns df = (case df of [] \<Rightarrow> [] | r # _ \<Rightarrow> map fst (cells r))"

definition df_empty :: "DataFrame \<Rightarrow> bool" where
  "df_empty df = (df_columns df = [])"

definition cell_of :: "row \<Rightarrow> string \<Rightarrow> cell" where
  "cell_of r c = (case map_of (cells r) c of None \<Rightarrow> NaN | Some v \<Rightarrow> v)"

definition set_index :: "string \<Rightarrow> DataFrame \<Rightarrow> exn + DataFrame" where
  "set_index name df =
     (if name \<in> set (df_columns df)
      then Inr (map (\<lambda>r. \<lparr>label = cell_of r name,
                          cells = filter (\<lambda>(c, v). c \<noteq> name) (cells r)\<rparr>) df)
      else Inl (KeyError name))"

definition df_getitem :: "string list \<Rightarrow> DataFrame \<Rightarrow> exn + DataFrame" where
  "df_getitem keys df =
     (case find (\<lambda>k. k \<notin> set (df_columns df)) keys of
        Some k \<Rightarrow> Inl (KeyError k)
      | None \<Rightarrow> Inr (map (\<lambda>r. r\<lparr>cells := map (\<lambda>k. (k, cell_of r k)) keys\<rparr>) df))"

definition df_column :: "string \<Rightarrow> DataFrame \<Rightarrow> exn + cell list" where
  "df_column name df =
     (if name \<in> set (df_columns df) then Inr (map (\<lambda>r. cell_of r name) df)
      else Inl (KeyError name))"

definition df_rename :: "(string \<times> string) list \<Rightarrow> DataFrame \<Rightarrow> DataFrame" where
  "df_rename ren_dict df =
     map (\<lambda>r. r\<lparr>cells := map (\<lambda>(c, v). (case map_of ren_dict c of None \<Rightarrow> c | Some c' \<Rightarrow> c', v))
                               (cells r)\<rparr>) df"

definition df_replace :: "cell \<Rightarrow> cell \<Rightarrow> DataFrame \<Rightarrow> DataFrame" where
  "df_replace old new df =
     map (\<lambda>r. r\<lparr>cells := map (\<lambda>(c, v). (c, if v = old then new else v)) (cells r)\<rparr>) df"

text \<open>
  \<^verbatim>\<open>df[cols] = df[cols].apply(f)\<close> with a conversion \<open>f\<close> of pandas (\<^verbatim>\<open>pd.to_numeric\<close>,
  \<^verbatim>\<open>pd.to_datetime\<close>), which is a parameter: \<open>None\<close> is its \<^verbatim>\<open>ValueError\<close>.
\<close>

definition apply_row :: "string list \<Rightarrow> (cell \<Rightarrow> cell option) \<Rightarrow> row \<Rightarrow> row option" where
  "apply_row cols f r =
     (case those (map (\<lambda>(c, v). if c \<in> set cols then map_option (Pair c) (f v) else Some (c, v))
                      (cells r)) of
        None \<Rightarrow> None
      | Some fs \<Rightarrow> Some (r\<lparr>cells := fs\<rparr>))"

definition df_apply :: "string list \<Rightarrow> (cell \<Rightarrow> cell option) \<Rightarrow> DataFrame \<Rightarrow> exn + DataFrame" where
  "df_apply cols f df =
     (case find (\<lambda>k. k \<notin> set (df_columns df)) cols of
        Some k \<Rightarrow> Inl (KeyError k)
      | None \<Rightarrow>
          (case those (map (apply_row cols f) df) of
             None \<Rightarrow> Inl (ValueError ''unable to parse'')
           | Some df' \<Rightarrow> Inr df'))"

definition pd_concat :: "DataFrame list \<Rightarrow> exn + DataFrame" where
  "pd_concat dfs =
     (if dfs = [] then Inl (ValueError ''No objects to concatenate'') else Inr (concat dfs))"

text \<open>\<^verbatim>\<open>DataFrame.drop_duplicates()\<close> compares the cells of the rows, not their labels.\<close>

definition drop_duplicates :: "DataFrame \<Rightarrow> DataFrame" where
  "drop_duplicates df = first_seen cells [] df"

section \<open>The continuation-query pager\<close>

text \<open>
  \<^verbatim>\<open>send_continuous_query\<close> is defined in the request utility module, which is not among
  the sources; the pager and its parts are modelled from sections 3, 4.1 and 7 of the spec.
\<close>

text \<open>
  Modelled from the spec: the continuation flag of the pager, missing with
  \<^verbatim>\<open>send_continuous_query\<close>. "The pager inspects a response-level continuation flag
  (distinct sentinel values: "F"/empty meaning "more data" vs a terminal marker)".
\<close>

definition has_more :: "APIResponse \<Rightarrow> bool" where
  "has_more res = (tr_cont res = ''F'' \<or> tr_cont res = '''')"

text \<open>
  Modelled from the spec: the cursor hand-over of the pager, missing with
  \<^verbatim>\<open>send_continuous_query\<close>. "The cursor fields to carry forward are extracted from the
  prior response and merged into the parameters of the next request, under field names
  that differ depending on whether the query targets the domestic or overseas endpoint
  family": the names are those of the request builders, \<^verbatim>\<open>CTX_AREA_FK\<close> and
  \<^verbatim>\<open>CTX_AREA_NK\<close> followed by the query code.
\<close>

definition continuation_params :: "bool \<Rightarrow> APIResponse \<Rightarrow> json" where
  "continuation_params is_kr res =
     (let query_code = get_continuous_query_code is_kr in
      [(''CTX_AREA_FK'' @ query_code) \<mapsto> forward_key res,
       (''CTX_AREA_NK'' @ query_code) \<mapsto> next_key res])"

text \<open>
  Modelled from the spec: the aggregated result of the pager, missing with
  \<^verbatim>\<open>send_continuous_query\<close>. "The row-wise concatenation of all pages' row sequences
  for one logical query, duplicate rows removed", each distinct row once and in first-seen
  order. The combined result is a frame, so rows are compared as
  \<^verbatim>\<open>drop_duplicates\<close> compares them.
\<close>

definition aggregate :: "DataFrame list \<Rightarrow> DataFrame" where
  "aggregate frames = drop_duplicates (concat frames)"

text \<open>
  Modelled from the spec: the loop of \<^verbatim>\<open>send_continuous_query\<close>, which is not among the
  sources. It calls the request function with the extra parameters of this iteration,
  maps the page to rows and appends them; when the flag says "more data" it repeats with
  the cursor of the response, otherwise it returns the aggregated result. An error of
  the request function or of the row mapper is not caught, and nothing bounds the number
  of iterations: the loop may run forever, so its result is an option, \<open>None\<close> for "does
  not return". \<open>'s\<close> is the state the request function works on.
\<close>

partial_function (option) continuous_query_loop ::
  "(json option \<Rightarrow> json option \<Rightarrow> 's \<Rightarrow> (exn + APIResponse) \<times> 's) \<Rightarrow>
   (APIResponse \<Rightarrow> exn + DataFrame) \<Rightarrow> bool \<Rightarrow> json option \<Rightarrow> DataFrame list \<Rightarrow> 's \<Rightarrow>
   ((exn + DataFrame) \<times> 's) option" where
  "continuous_query_loop request_function to_dataframe is_kr extra_param frames s =
     (case request_function None extra_param s of
        (Inl e, s') \<Rightarrow> Some (Inl e, s')
      | (Inr res, s') \<Rightarrow>
          (case to_dataframe res of
             Inl e \<Rightarrow> Some (Inl e, s')
           | Inr df \<Rightarrow>
               (if has_more res
                then continuous_query_loop request_function to_dataframe is_kr
                       (Some (continuation_params is_kr res)) (frames @ [df]) s'
                else Some (Inr (aggregate (frames @ [df])), s'))))"

text \<open>
  Modelled from the spec: \<^verbatim>\<open>send_continuous_query(request_function, to_dataframe,
  is_kr)\<close>, which is not among the sources. The first call has no cursor. Some callers
  pass no \<^verbatim>\<open>is_kr\<close>; the default of that parameter is not known, so it is a parameter
  of those callers.
\<close>

definition send_continuous_query ::
  "(json option \<Rightarrow> json option \<Rightarrow> 's \<Rightarrow> (exn + APIResponse) \<times> 's) \<Rightarrow>
   (APIResponse \<Rightarrow> exn + DataFrame) \<Rightarrow> bool \<Rightarrow> 's \<Rightarrow> ((exn + DataFrame) \<times> 's) option" where
  "send_continuous_query request_function to_dataframe is_kr s =
     continuous_query_loop request_function to_dataframe is_kr None [] s"

section \<open>public_api.py: paged balance queries\<close>

text \<open>
  The display names of the columns are Korean text; they are the parameter \<open>cf2\<close> of the
  row mappers.
\<close>

definition kr_balance_to_dataframe ::
  "(cell \<Rightarrow> cell option) \<Rightarrow> string list \<Rightarrow> APIResponse \<Rightarrow> exn + DataFrame" where
  "kr_balance_to_dataframe to_numeric cf2 res =
     (case outputs res of
        [] \<Rightarrow> Inl IndexError
      | out # _ \<Rightarrow>
          (case pd_DataFrame out of
             Inl e \<Rightarrow> Inl e
           | Inr tdf \<Rightarrow>
               (if df_empty tdf then Inr tdf
                else case set_index ''pdno'' tdf of
                  Inl e \<Rightarrow> Inl e
                | Inr tdf1 \<Rightarrow>
                    (let tdf2 = df_replace (Text ''nan'') (Integer 0) tdf1;
                         cf1 = [''prdt_name'', ''hldg_qty'', ''ord_psbl_qty'', ''pchs_avg_pric'',
                                ''evlu_pfls_rt'', ''prpr'', ''bfdy_cprs_icdc'', ''fltt_rt''] in
                     case df_getitem cf1 tdf2 of
                       Inl e \<Rightarrow> Inl e
                     | Inr tdf3 \<Rightarrow>
                         (case df_apply (tl cf1) to_numeric tdf3 of
                            Inl e \<Rightarrow> Inl e
                          | Inr tdf4 \<Rightarrow>
                              (let ren_dict = zip cf1 cf2 in
                               Inr (df_rename ren_dict tdf4)))))))"


definition os_balance_to_dataframe ::
  "(cell \<Rightarrow> cell option) \<Rightarrow> string list \<Rightarrow> APIResponse \<Rightarrow> exn + DataFrame" where
  "os_balance_to_dataframe to_numeric cf2 res =
     (case outputs res of
        [] \<Rightarrow> Inl IndexError
      | out # _ \<Rightarrow>
          (case pd_DataFrame out of
             Inl e \<Rightarrow> Inl e
           | Inr tdf \<Rightarrow>
               (if df_empty tdf then Inr tdf
                else case set_index ''ovrs_pdno'' tdf of
                  Inl e \<Rightarrow> Inl e
                | Inr tdf1 \<Rightarrow>
                    (let cf1 = [''ovrs_item_name'', ''ovrs_cblc_qty'', ''ord_psbl_qty'',
                                ''frcr_pchs_amt1'', ''evlu_pfls_rt'', ''now_pric2'',
                                ''ovrs_excg_cd'', ''tr_crcy_cd''] in
                     case df_getitem cf1 tdf1 of
                       Inl e \<Rightarrow> Inl e
                     | Inr tdf2 \<Rightarrow>
                         (case df_apply (butlast (butlast (tl cf1))) to_numeric tdf2 of
                            Inl e \<Rightarrow> Inl e
                          | Inr tdf3 \<Rightarrow>
                              (let ren_dict = zip cf1 cf2 in
                               Inr (df_rename ren_dict tdf3)))))))"


text \<open>
  A list comprehension that runs one paged query for every code of a list in turn; the
  first error ends it. \<^verbatim>\<open>get_os_stock_balance\<close> runs the balance query of every market
  this way.
\<close>

fun query_each ::
  "(string \<Rightarrow> Api \<Rightarrow> ((exn + DataFrame) \<times> Api) option) \<Rightarrow> string list \<Rightarrow> Api \<Rightarrow>
   ((exn + DataFrame list) \<times> Api) option" where
  "query_each query [] s = Some (Inr [], s)"
| "query_each query (code # rest) s =
     (case query code s of
        None \<Rightarrow> None
      | Some (Inl e, s') \<Rightarrow> Some (Inl e, s')
      | Some (Inr df, s') \<Rightarrow>
          (case query_each query rest s' of
             None \<Rightarrow> None
           | Some (Inl e, s'') \<Rightarrow> Some (Inl e, s'')
           | Some (Inr dfs, s'') \<Rightarrow> Some (Inr (df # dfs), s'')))"


section \<open>public_api.py: price history\<close>



section \<open>public_api.py: order history and open orders\<close>

text \<open>
  \<open>dates\<close> is the pair (\<^verbatim>\<open>ORD_STRT_DT\<close>, \<^verbatim>\<open>ORD_END_DT\<close>) that the method formats from the
  wall clock: yesterday and today.
\<close>

definition get_order_history ::
  "transport \<Rightarrow> string \<times> string \<Rightarrow> bool \<Rightarrow> string \<Rightarrow> json option \<Rightarrow> json option \<Rightarrow>
   APIResponse action" where
  "get_order_history http dates is_kr sell_or_buy extra_header0 extra_param0 s =
     (let url_path = (if is_kr then ''/uapi/domestic-stock/v1/trading/inquire-daily-ccld''
                      else ''/uapi/overseas-stock/v1/trading/inquire-ccnl'');
          tr_id = (if is_kr
                   then (if \<not> domain_is_real s then ''VTTC8001R'' else ''TTTC8001R'')
                   else (if \<not> domain_is_real s then ''VTTS3035R'' else ''TTTS3035R''));
          OVRS_EXCG_CD = (if \<not> domain_is_real s then '''' else ''NASD'');
          PDNO = (if is_kr then '''' else if \<not> domain_is_real s then '''' else ''%'');
          ORD_STRT_DT = fst dates;
          ORD_END_DT = snd dates;
          extra_header1 = none_to_empty_dict extra_header0;
          extra_param = none_to_empty_dict extra_param0;
          extra_header2 = merge_json [[''tr_cont'' \<mapsto> ''''], extra_header1];
          query_code = get_continuous_query_code is_kr in
      case account s of
        None \<Rightarrow> (Inl no_account, s)
      | Some a \<Rightarrow>
          (let ps0 =
                 (if is_kr
                  then [''CANO'' \<mapsto> account_code a,
                        ''ACNT_PRDT_CD'' \<mapsto> product_code a,
                        ''INQR_STRT_DT'' \<mapsto> ORD_STRT_DT,
                        ''INQR_END_DT'' \<mapsto> ORD_END_DT,
                        ''SLL_BUY_DVSN_CD'' \<mapsto> sell_or_buy,
                        ''INQR_DVSN'' \<mapsto> ''AS'',
                        ''PDNO'' \<mapsto> PDNO,
                        ''CCLD_DVSN'' \<mapsto> ''00'',
                        ''ORD_GNO_BRNO'' \<mapsto> '''',
                        ''ODNO'' \<mapsto> '''',
                        ''INQR_DVSN_3'' \<mapsto> ''00'',
                        ''INQR_DVSN_1'' \<mapsto> '''',
                        (''CTX_AREA_FK'' @ query_code) \<mapsto> '''',
                        (''CTX_AREA_NK'' @ query_code) \<mapsto> '''']
                  else [''CANO'' \<mapsto> account_code a,
                        ''ACNT_PRDT_CD'' \<mapsto> product_code a,
                        ''PDNO'' \<mapsto> PDNO,
                        ''ORD_STRT_DT'' \<mapsto> ORD_STRT_DT,
                        ''ORD_END_DT'' \<mapsto> ORD_END_DT,
                        ''SLL_BUY_DVSN'' \<mapsto> sell_or_buy,
                        ''CCLD_NCCS_DVSN'' \<mapsto> ''00'',
                        ''OVRS_EXCG_CD'' \<mapsto> OVRS_EXCG_CD,
                        ''SORT_SQN'' \<mapsto> ''AS'',
                        ''ORD_DT'' \<mapsto> '''',
                        ''ORD_GNO_BRNO'' \<mapsto> '''',
                        ''ODNO'' \<mapsto> '''',
                        (''CTX_AREA_FK'' @ query_code) \<mapsto> '''',
                        (''CTX_AREA_NK'' @ query_code) \<mapsto> '''']);
               ps = merge_json [ps0, extra_param];
               req = \<lparr>url_path = url_path, tr_id = Some tr_id, params = ps,
                      requires_authentication = None, requires_hash = None,
                      extra_header = Some extra_header2\<rparr> in
           Api_send_get_request http req True s))"

text \<open>
  \<^verbatim>\<open>get_os_orders\<close> binds two local functions and ends: it sends no request, never calls
  its row mapper and has no \<^verbatim>\<open>return\<close> statement, so the caller receives \<^verbatim>\<open>None\<close>.
  \<open>to_4\<close> stands for \<^verbatim>\<open>MarketCodeMap.to_4\<close>, the two labels for the Korean words for
  "sell" and "buy", \<open>names\<close> for the Korean column names.
\<close>

definition os_orders_to_dataframe ::
  "(string \<Rightarrow> string + string) \<Rightarrow> string \<times> string \<Rightarrow> string list \<Rightarrow> APIResponse \<Rightarrow>
   exn + DataFrame" where
  "os_orders_to_dataframe to_4 labels names res =
     (let sell_or_buy = (\<lambda>v. if v = Text ''01'' then Some (Text (fst labels))
                              else Some (Text (snd labels))) in
      case outputs res of
        [] \<Rightarrow> Inl IndexError
      | out # _ \<Rightarrow>
          (case pd_DataFrame out of
             Inl e \<Rightarrow> Inl e
           | Inr data0 \<Rightarrow>
               (if df_empty data0 then Inr data0
                else
                  (let sell_or_buy_column = ''sll_buy_dvsn_cd'';
                       market_code_column = ''ovrs_excg_cd'' in
                   case set_index ''odno'' data0 of
                     Inl e \<Rightarrow> Inl e
                   | Inr data1 \<Rightarrow>
                       (let keys = [''pdno'', ''ft_ord_qty'', ''ft_ccld_qty'', ''nccs_qty'',
                                    ''ft_ord_unpr3'', sell_or_buy_column, ''ord_tmd'',
                                    ''ord_gno_brno'', ''orgn_odno'', market_code_column,
                                    ''tr_crcy_cd'', ''prcs_stat_name'', ''rjct_rson_name'',
                                    ''rjct_rson''];
                            rename_map = zip keys names in
                        case df_getitem keys data1 of
                          Inl e \<Rightarrow> Inl e
                        | Inr data2 \<Rightarrow>
                            (case df_apply [sell_or_buy_column] sell_or_buy data2 of
                               Inl e \<Rightarrow> Inl e
                             | Inr data3 \<Rightarrow>
                                 (case df_apply [market_code_column]
                                         (\<lambda>v. case v of
                                                 Text m \<Rightarrow> (case to_4 m of
                                                              Inl e \<Rightarrow> None
                                                            | Inr m4 \<Rightarrow> Some (Text m4))
                                               | _ \<Rightarrow> None) data3 of
                                    Inl e \<Rightarrow> Inl e
                                  | Inr data4 \<Rightarrow> Inr (df_rename rename_map data4))))))))"

definition get_os_orders ::
  "(string \<Rightarrow> string + string) \<Rightarrow> string \<times> string \<Rightarrow> string list \<Rightarrow>
   DataFrame option action" where
  "get_os_orders to_4 labels names s =
     (let to_dataframe = os_orders_to_dataframe to_4 labels names in
      (Inr None, s))"

section \<open>public_api.py: order-history queries\<close>

text \<open>
  \<^verbatim>\<open>_get_kr_order_history\<close> and \<^verbatim>\<open>_get_os_order_history\<close>: the paged queries behind the public
  order-history methods, with their row mappers. The Korean column names are the parameter
  \<open>cf2\<close>.
\<close>

definition kr_order_history_to_dataframe :: "string list \<Rightarrow> APIResponse \<Rightarrow> exn + DataFrame" where
  "kr_order_history_to_dataframe cf2 res =
     (case outputs res of
        [] \<Rightarrow> Inl IndexError
      | out # _ \<Rightarrow>
          (case pd_DataFrame out of
             Inl e \<Rightarrow> Inl e
           | Inr tdf \<Rightarrow>
               (if df_empty tdf then Inr tdf
                else
                  (let cf1 = [''ord_dt'', ''ord_gno_brno'', ''odno'', ''orgn_odno'',
                              ''ord_dvsn_name'', ''sll_buy_dvsn_cd'', ''sll_buy_dvsn_cd_name'',
                              ''pdno'', ''prdt_name'', ''ord_qty'', ''ord_unpr'', ''ord_tmd'',
                              ''tot_ccld_qty'', ''avg_prvs'', ''cncl_yn'', ''tot_ccld_amt'',
                              ''loan_dt'', ''ord_dvsn_cd'', ''cncl_cfrm_qty'', ''rmn_qty'',
                              ''rjct_qty'', ''ccld_cndt_name'', ''infm_tmd'', ''ctac_tlno'',
                              ''prdt_type_cd'', ''excg_dvsn_cd''] in
                   case df_getitem cf1 tdf of
                     Inl e \<Rightarrow> Inl e
                   | Inr tdf1 \<Rightarrow>
                       (let ren_dict = zip cf1 cf2 in
                        Inr (df_rename ren_dict tdf1))))))"

definition get_kr_order_history_paged ::
  "transport \<Rightarrow> string \<times> string \<Rightarrow> string list \<Rightarrow> Api \<Rightarrow> ((exn + DataFrame) \<times> Api) option" where
  "get_kr_order_history_paged http dates cf2 =
     send_continuous_query (get_order_history http dates True ''00'')
       (kr_order_history_to_dataframe cf2) True"

definition os_order_history_to_dataframe :: "string list \<Rightarrow> APIResponse \<Rightarrow> exn + DataFrame" where
  "os_order_history_to_dataframe cf2 res =
     (case body_output res of
        None \<Rightarrow> Inl (KeyError ''output'')
      | Some out \<Rightarrow>
          (case pd_DataFrame out of
             Inl e \<Rightarrow> Inl e
           | Inr tdf \<Rightarrow>
               (if df_empty tdf then Inr tdf
                else
                  (let cf1 = [''ord_dt'', ''ord_gno_brno'', ''odno'', ''orgn_odno'',
                              ''sll_buy_dvsn_cd'', ''sll_buy_dvsn_cd_name'', ''rvse_cncl_dvsn'',
                              ''rvse_cncl_dvsn_name'', ''pdno'', ''prdt_name'', ''ft_ord_qty'',
                              ''ft_ord_unpr3'', ''ft_ccld_qty'', ''ft_ccld_unpr3'',
                              ''ft_ccld_amt3'', ''nccs_qty'', ''prcs_stat_name'', ''rjct_rson'',
                              ''ord_tmd'', ''tr_mket_name'', ''tr_natn'', ''tr_natn_name'',
                              ''ovrs_excg_cd'', ''tr_crcy_cd'', ''dmst_ord_dt'', ''thco_ord_tmd'',
                              ''loan_type_cd'', ''mdia_dvsn_name'', ''loan_dt'',
                              ''rjct_rson_name'', ''usa_amk_exts_rqst_yn''];
                       ren_dict = zip cf1 cf2 in
                   Inr (df_rename ren_dict tdf)))))"


text \<open>
  The public methods put the one frame in a list, concatenate and drop duplicates:
  \<^verbatim>\<open>pd.concat(datas).drop_duplicates()\<close>.
\<close>

definition concat_drop_duplicates ::
  "((exn + DataFrame) \<times> Api) option \<Rightarrow> ((exn + DataFrame) \<times> Api) option" where
  "concat_drop_duplicates run =
     (case run of
        None \<Rightarrow> None
      | Some (Inl e, s') \<Rightarrow> Some (Inl e, s')
      | Some (Inr df, s') \<Rightarrow>
          (let datas = [df] in
           case pd_concat datas of
             Inl e \<Rightarrow> Some (Inl e, s')
           | Inr d \<Rightarrow> Some (Inr (drop_duplicates d), s')))"


definition get_kr_order_history ::
  "transport \<Rightarrow> string \<times> string \<Rightarrow> string list \<Rightarrow> Api \<Rightarrow> ((exn + DataFrame) \<times> Api) option" where
  "get_kr_order_history http dates cf2 s =
     concat_drop_duplicates (get_kr_order_history_paged http dates cf2 s)"

section \<open>public_api.py: open-order queries\<close>

definition get_kr_orders_once ::
  "transport \<Rightarrow> json option \<Rightarrow> json option \<Rightarrow> APIResponse action" where
  "get_kr_orders_once http extra_header0 extra_param0 s =
     (let url_path = ''/uapi/domestic-stock/v1/trading/inquire-psbl-rvsecncl'';
          tr_id = ''TTTC8036R'';
          extra_header1 = none_to_empty_dict extra_header0;
          extra_param = none_to_empty_dict extra_param0;
          extra_header2 = merge_json [[''tr_cont'' \<mapsto> ''''], extra_header1];
          query_code = get_continuous_query_code True in
      case account s of
        None \<Rightarrow> (Inl no_account, s)
      | Some a \<Rightarrow>
          (let ps0 = [''CANO'' \<mapsto> account_code a,
                      ''ACNT_PRDT_CD'' \<mapsto> product_code a,
                      (''CTX_AREA_FK'' @ query_code) \<mapsto> '''',
                      (''CTX_AREA_NK'' @ query_code) \<mapsto> '''',
                      ''INQR_DVSN_1'' \<mapsto> ''0'',
                      ''INQR_DVSN_2'' \<mapsto> ''0''];
               ps = merge_json [ps0, extra_param];
               req = \<lparr>url_path = url_path, tr_id = Some tr_id, params = ps,
                      requires_authentication = None, requires_hash = None,
                      extra_header = Some extra_header2\<rparr> in
           Api_send_get_request http req True s))"

text \<open>\<open>to_4\<close> stands for \<^verbatim>\<open>MarketCodeMap.to_4\<close> (\<open>Inl\<close> when it raises).\<close>

definition get_os_orders_once ::
  "transport \<Rightarrow> (string \<Rightarrow> string + string) \<Rightarrow> string \<Rightarrow> json option \<Rightarrow> json option \<Rightarrow>
   APIResponse action" where
  "get_os_orders_once http to_4 markert_code0 extra_header0 extra_param0 s =
     (let url_path = ''/uapi/overseas-stock/v1/trading/inquire-nccs'';
          tr_id = (if domain_is_real s then ''TTTS3018R'' else ''VTTT3018R'');
          extra_header1 = none_to_empty_dict extra_header0;
          extra_param = none_to_empty_dict extra_param0 in
      case to_4 markert_code0 of
        Inl e \<Rightarrow> (Inl (External e), s)
      | Inr markert_code \<Rightarrow>
          (let extra_header2 = merge_json [[''tr_cont'' \<mapsto> ''''], extra_header1];
               query_code = get_continuous_query_code False in
           case account s of
             None \<Rightarrow> (Inl no_account, s)
           | Some a \<Rightarrow>
               (let ps0 = [''CANO'' \<mapsto> account_code a,
                           ''ACNT_PRDT_CD'' \<mapsto> product_code a,
                           (''CTX_AREA_FK'' @ query_code) \<mapsto> '''',
                           (''CTX_AREA_NK'' @ query_code) \<mapsto> '''',
                           ''OVRS_EXCG_CD'' \<mapsto> markert_code,
                           ''SORT_SQN'' \<mapsto> ''DS''];
                    ps = merge_json [ps0, extra_param];
                    req = \<lparr>url_path = url_path, tr_id = Some tr_id, params = ps,
                           requires_authentication = None, requires_hash = None,
                           extra_header = Some extra_header2\<rparr> in
                Api_send_get_request http req True s)))"

text \<open>
  The row mapper of \<^verbatim>\<open>get_kr_orders\<close>; the two labels are the Korean words for "sell" and
  "buy", \<open>names\<close> the Korean column names.
\<close>

definition kr_orders_to_dataframe ::
  "string \<times> string \<Rightarrow> string list \<Rightarrow> APIResponse \<Rightarrow> exn + DataFrame" where
  "kr_orders_to_dataframe labels names res =
     (let sell_or_buy = (\<lambda>v. if v = Text ''01'' then Some (Text (fst labels))
                              else Some (Text (snd labels))) in
      case outputs res of
        [] \<Rightarrow> Inl IndexError
      | out # _ \<Rightarrow>
          (case pd_DataFrame out of
             Inl e \<Rightarrow> Inl e
           | Inr data0 \<Rightarrow>
               (if df_empty data0 then Inr data0
                else case set_index ''odno'' data0 of
                  Inl e \<Rightarrow> Inl e
                | Inr data1 \<Rightarrow>
                    (let keys = [''pdno'', ''ord_qty'', ''psbl_qty'', ''ord_unpr'',
                                 ''sll_buy_dvsn_cd'', ''ord_tmd'', ''ord_gno_brno'',
                                 ''orgn_odno''] in
                     case df_getitem keys data1 of
                       Inl e \<Rightarrow> Inl e
                     | Inr data2 \<Rightarrow>
                         (let sell_or_buy_column = ''sll_buy_dvsn_cd'' in
                          case df_apply [sell_or_buy_column] sell_or_buy data2 of
                            Inl e \<Rightarrow> Inl e
                          | Inr data3 \<Rightarrow>
                              (let rename_map = zip keys names in
                               Inr (df_rename rename_map data3)))))))"

text \<open>
  \<^verbatim>\<open>get_kr_orders\<close> hands \<^verbatim>\<open>_get_kr_orders_once\<close> to the pager and passes no \<^verbatim>\<open>is_kr\<close>:
  the pager runs with the default of that parameter, the parameter \<open>default_is_kr\<close> here.
\<close>

definition get_kr_orders ::
  "transport \<Rightarrow> string \<times> string \<Rightarrow> string list \<Rightarrow> bool \<Rightarrow> Api \<Rightarrow>
   ((exn + DataFrame) \<times> Api) option" where
  "get_kr_orders http labels names default_is_kr =
     send_continuous_query (get_kr_orders_once http)
       (kr_orders_to_dataframe labels names) default_is_kr"

text \<open>
  The row mapper of \<^verbatim>\<open>get_os_orders_by_flag\<close>. The method's parameter \<^verbatim>\<open>sell_or_buy\<close> is
  rebound by the local function of the same name before the mapper is defined, so
  \<^verbatim>\<open>if sell_or_buy:\<close> always holds, and the comparison of the column with that function is
  false in every row: the selection keeps no row.
\<close>

definition os_orders_by_flag_to_dataframe ::
  "(string \<Rightarrow> string + string) \<Rightarrow> string \<times> string \<Rightarrow> string list \<Rightarrow> APIResponse \<Rightarrow>
   exn + DataFrame" where
  "os_orders_by_flag_to_dataframe to_4 labels names res =
     (let sell_or_buy = (\<lambda>v. if v = Text ''01'' then Some (Text (fst labels))
                              else Some (Text (snd labels))) in
      case outputs res of
        [] \<Rightarrow> Inl IndexError
      | out # _ \<Rightarrow>
          (case pd_DataFrame out of
             Inl e \<Rightarrow> Inl e
           | Inr data0 \<Rightarrow>
               (if df_empty data0 then Inr data0
                else
                  (let sell_or_buy_column = ''sll_buy_dvsn_cd'';
                       market_code_column = ''ovrs_excg_cd'' in
                   case set_index ''odno'' data0 of
                     Inl e \<Rightarrow> Inl e
                   | Inr data1 \<Rightarrow>
                       (let keys = [''pdno'', ''ft_ord_qty'', ''ft_ccld_qty'', ''nccs_qty'',
                                    ''ft_ord_unpr3'', sell_or_buy_column, ''ord_tmd'',
                                    ''ord_gno_brno'', ''orgn_odno'', market_code_column,
                                    ''tr_crcy_cd'', ''prcs_stat_name'', ''rjct_rson_name'',
                                    ''rjct_rson''];
                            rename_map = zip keys names in
                        case df_getitem keys data1 of
                          Inl e \<Rightarrow> Inl e
                        | Inr data2 \<Rightarrow>
                            (case df_apply [sell_or_buy_column] sell_or_buy data2 of
                               Inl e \<Rightarrow> Inl e
                             | Inr data3 \<Rightarrow>
                                 (case df_apply [market_code_column]
                                         (\<lambda>v. case v of
                                                 Text m \<Rightarrow> (case to_4 m of
                                                              Inl e \<Rightarrow> None
                                                            | Inr m4 \<Rightarrow> Some (Text m4))
                                               | _ \<Rightarrow> None) data3 of
                                    Inl e \<Rightarrow> Inl e
                                  | Inr data4 \<Rightarrow>
                                      (let data5 = filter (\<lambda>r. False) data4 in
                                       Inr (df_rename rename_map data5)))))))))"

text \<open>
  \<^verbatim>\<open>get_os_orders_by_flag\<close> runs one paged query for every code of
  \<^verbatim>\<open>market_code_map.codes_4\<close> (the parameter \<open>codes_4\<close>) but AMEX and NYSE, and it too passes
  no \<^verbatim>\<open>is_kr\<close> to the pager.
\<close>

definition get_os_orders_by_flag ::
  "transport \<Rightarrow> (string \<Rightarrow> string + string) \<Rightarrow> string list \<Rightarrow> string \<times> string \<Rightarrow> string list \<Rightarrow>
   bool \<Rightarrow> Api \<Rightarrow> ((exn + DataFrame) \<times> Api) option" where
  "get_os_orders_by_flag http to_4 codes_4 labels names default_is_kr s =
     (case query_each
             (\<lambda>code. send_continuous_query (get_os_orders_once http to_4 code)
                       (os_orders_by_flag_to_dataframe to_4 labels names) default_is_kr)
             (filter (\<lambda>code. code \<notin> set [''AMEX'', ''NYSE'']) codes_4) s of
        None \<Rightarrow> None
      | Some (Inl e, s') \<Rightarrow> Some (Inl e, s')
      | Some (Inr outs, s') \<Rightarrow>
          (case pd_concat outs of
             Inl e \<Rightarrow> Some (Inl e, s')
           | Inr df \<Rightarrow> Some (Inr df, s')))"

section \<open>public_api.py: orders\<close>

text \<open>Python's \<^verbatim>\<open>str\<close> of an integer.\<close>

fun str_nat :: "nat \<Rightarrow> string" where
  "str_nat n =
     (if n < 10 then [char_of (48 + n)]
      else str_nat (n div 10) @ [char_of (48 + n mod 10)])"

declare str_nat.simps [simp del]

definition str_int :: "int \<Rightarrow> string" where
  "str_int i = (if i < 0 then CHR ''-'' # str_nat (nat (- i)) else str_nat (nat i))"

definition send_kr_order ::
  "transport \<Rightarrow> string \<Rightarrow> int \<Rightarrow> int \<Rightarrow> bool \<Rightarrow> api_output action" where
  "send_kr_order http ticker amount price0 buy s =
     (let (price, order_type) = (if price0 \<le> 0 then (0, ''01'') else (price0, ''00''));
          url_path = ''/uapi/domestic-stock/v1/trading/order-cash'';
          tr_id = (if buy then ''TTTC0802U'' else ''TTTC0801U'') in
      case account s of
        None \<Rightarrow> (Inl no_account, s)
      | Some a \<Rightarrow>
          (let ps = [''CANO'' \<mapsto> account_code a,
                     ''ACNT_PRDT_CD'' \<mapsto> product_code a,
                     ''PDNO'' \<mapsto> ticker,
                     ''ORD_DVSN'' \<mapsto> order_type,
                     ''ORD_QTY'' \<mapsto> str_int amount,
                     ''ORD_UNPR'' \<mapsto> str_int price,
                     ''CTAC_TLNO'' \<mapsto> ''''];
               req = \<lparr>url_path = url_path, tr_id = Some tr_id, params = ps,
                      requires_authentication = Some True, requires_hash = Some True,
                      extra_header = None\<rparr> in
           case Api_send_post_request http req True s of
             (Inl e, s') \<Rightarrow> (Inl e, s')
           | (Inr response, s') \<Rightarrow>
               (case outputs response of
                  [] \<Rightarrow> (Inl IndexError, s')
                | out # _ \<Rightarrow> (Inr out, s'))))"

text \<open>
  The collaborators of an overseas order, none of them among the sources:
  \<open>code_to_4\<close> is \<^verbatim>\<open>MarketCodeMap.to_4\<close>, \<open>order_tr_id\<close> is
  \<^verbatim>\<open>get_order_tr_id_from_market_code\<close> (\<open>Inl\<close> when they raise), and \<open>format_2f\<close> is the
  formatting of the price with two decimals. The price is a Python float; it is modelled
  as a real number, which the comparison with zero treats as the float does (not-a-number
  apart).
\<close>

record os_order_env =
  code_to_4 :: "string \<Rightarrow> string + string"
  order_tr_id :: "string \<Rightarrow> bool \<Rightarrow> bool \<Rightarrow> string + string"
  format_2f :: "real \<Rightarrow> string"

definition send_os_order ::
  "transport \<Rightarrow> os_order_env \<Rightarrow> string \<Rightarrow> string \<Rightarrow> int \<Rightarrow> real \<Rightarrow> bool \<Rightarrow>
   api_output action" where
  "send_os_order http env ticker market_code0 order_amount price buy s =
     (let order_type = ''00'';
          price_as_str = format_2f env price in
      case code_to_4 env market_code0 of
        Inl e \<Rightarrow> (Inl (External e), s)
      | Inr market_code \<Rightarrow>
          (if price \<le> 0 then (Inl (RuntimeError OsMarketOrderUnsupported), s)
           else
             (let url_path = ''/uapi/overseas-stock/v1/trading/order'' in
              case order_tr_id env market_code buy (domain_is_real s) of
                Inl e \<Rightarrow> (Inl (External e), s)
              | Inr tr \<Rightarrow>
                  (case account s of
                     None \<Rightarrow> (Inl no_account, s)
                   | Some a \<Rightarrow>
                       (let ps = [''CANO'' \<mapsto> account_code a,
                                  ''ACNT_PRDT_CD'' \<mapsto> product_code a,
                                  ''PDNO'' \<mapsto> ticker,
                                  ''OVRS_EXCG_CD'' \<mapsto> market_code,
                                  ''ORD_DVSN'' \<mapsto> order_type,
                                  ''ORD_QTY'' \<mapsto> str_int order_amount,
                                  ''OVRS_ORD_UNPR'' \<mapsto> price_as_str,
                                  ''ORD_SVR_DVSN_CD'' \<mapsto> ''0''];
                            req = \<lparr>url_path = url_path, tr_id = Some tr, params = ps,
                                   requires_authentication = Some True,
                                   requires_hash = Some True, extra_header = None\<rparr> in
                        case Api_send_post_request http req True s of
                          (Inl e, s') \<Rightarrow> (Inl e, s')
                        | (Inr response, s') \<Rightarrow>
                            (case outputs response of
                               [] \<Rightarrow> (Inl IndexError, s')
                             | out # _ \<Rightarrow> (Inr out, s')))))))"

definition buy_os_stock ::
  "transport \<Rightarrow> os_order_env \<Rightarrow> string \<Rightarrow> string \<Rightarrow> int \<Rightarrow> real \<Rightarrow> api_output action" where
  "buy_os_stock http env market_code ticker amount price =
     send_os_order http env ticker market_code amount price True"

definition sell_os_stock ::
  "transport \<Rightarrow> os_order_env \<Rightarrow> string \<Rightarrow> string \<Rightarrow> int \<Rightarrow> real \<Rightarrow> api_output action" where
  "sell_os_stock http env market_code ticker amount price =
     send_os_order http env ticker market_code amount price False"

section \<open>public_api.py: cancelling overseas orders\<close>

definition revise_cancel_tr_id :: "bool \<Rightarrow> string \<Rightarrow> exn + string" where
  "revise_cancel_tr_id is_real country =
     (case map_of
        (if is_real
         then [(''USA'', ''TTTT1004U''), (''HK'', ''TTTS1003U''), (''JP'', ''TTTS0309U''),
               (''CN_SHA'', ''TTTS0302U''), (''CN_SZX'', ''TTTS0306U''), (''VN'', ''TTTS0312U'')]
         else [(''USA'', ''VTTT1004U''), (''HK'', ''VTTS1003U''), (''JP'', ''VTTS0309U''),
               (''CN_SHA'', ''VTTS0302U''), (''CN_SZX'', ''VTTS0306U''), (''VN'', ''VTTS0312U'')])
        country of
        None \<Rightarrow> Inl (KeyError country)
      | Some t \<Rightarrow> Inr t)"

text \<open>
  The values handed over by \<^verbatim>\<open>cancel_all_os_orders\<close> are cells of a frame. \<open>py_str\<close> and
  \<open>py_int\<close> stand for Python's \<^verbatim>\<open>str\<close> and \<^verbatim>\<open>int\<close> on such a value (\<open>None\<close> when
  \<^verbatim>\<open>int\<close> raises), \<open>str_float\<close> for \<^verbatim>\<open>str\<close> of the float price.
\<close>

record py_env =
  py_str :: "cell \<Rightarrow> string"
  py_int :: "cell \<Rightarrow> int option"
  str_float :: "real \<Rightarrow> string"

text \<open>
  The country of \<^verbatim>\<open>get_country_by_market_code(market_code)\<close>, and the amount after
  \<^verbatim>\<open>if amount is None or int(amount) <= 0: amount = 1\<close>.
\<close>

definition order_country :: "py_env \<Rightarrow> cell \<Rightarrow> exn + string" where
  "order_country py market_code =
     (case market_code of
        Text m \<Rightarrow> get_country_by_market_code m
      | _ \<Rightarrow> Inl (KeyError (py_str py market_code)))"

definition amount_or_one :: "py_env \<Rightarrow> cell option \<Rightarrow> exn + cell" where
  "amount_or_one py amount0 =
     (case amount0 of
        None \<Rightarrow> Inr (Integer 1)
      | Some v \<Rightarrow>
          (case py_int py v of
             None \<Rightarrow> Inl (ValueError (py_str py v))
           | Some n \<Rightarrow> Inr (if n \<le> 0 then Integer 1 else v)))"

definition revise_cancel_os_orders ::
  "transport \<Rightarrow> py_env \<Rightarrow> cell \<Rightarrow> cell \<Rightarrow> cell \<Rightarrow> bool \<Rightarrow> real \<Rightarrow> cell option \<Rightarrow>
   json action" where
  "revise_cancel_os_orders http py order_number ticker market_code is_cancel price0 amount0 s =
     (let url_path = ''/uapi/overseas-stock/v1/trading/order-rvsecncl'' in
      case order_country py market_code of
        Inl e \<Rightarrow> (Inl e, s)
      | Inr country \<Rightarrow>
          (case revise_cancel_tr_id (domain_is_real s) country of
             Inl e \<Rightarrow> (Inl e, s)
           | Inr tr \<Rightarrow>
               (let cancel_dv = (if is_cancel then ''02'' else ''01'');
                    price = (if is_cancel then ''0'' else str_float py price0) in
                case amount_or_one py amount0 of
                  Inl e \<Rightarrow> (Inl e, s)
                | Inr amount \<Rightarrow>
                    (case account s of
                       None \<Rightarrow> (Inl no_account, s)
                     | Some a \<Rightarrow>
                         (let ps = [''CANO'' \<mapsto> account_code a,
                                    ''ACNT_PRDT_CD'' \<mapsto> product_code a,
                                    ''OVRS_EXCG_CD'' \<mapsto> py_str py market_code,
                                    ''PDNO'' \<mapsto> py_str py ticker,
                                    ''ORGN_ODNO'' \<mapsto> py_str py order_number,
                                    ''RVSE_CNCL_DVSN_CD'' \<mapsto> cancel_dv,
                                    ''ORD_QTY'' \<mapsto> py_str py amount,
                                    ''OVRS_ORD_UNPR'' \<mapsto> price];
                              req = \<lparr>url_path = url_path, tr_id = Some tr, params = ps,
                                     requires_authentication = Some True,
                                     requires_hash = Some True, extra_header = None\<rparr> in
                          case Api_send_post_request http req True s of
                            (Inl e, s') \<Rightarrow> (Inl e, s')
                          | (Inr res, s') \<Rightarrow> (Inr (body res), s'))))))"

definition cancel_os_order ::
  "transport \<Rightarrow> py_env \<Rightarrow> cell \<Rightarrow> cell \<Rightarrow> cell \<Rightarrow> cell option \<Rightarrow> json action" where
  "cancel_os_order http py order_number ticker market_code amount =
     revise_cancel_os_orders http py order_number ticker market_code True 0 amount"

text \<open>The loop of \<^verbatim>\<open>cancel_all_os_orders\<close> over the zipped columns.\<close>

fun cancel_each ::
  "transport \<Rightarrow> py_env \<Rightarrow> (cell \<times> cell \<times> cell \<times> cell) list \<Rightarrow> json list \<Rightarrow>
   json list action" where
  "cancel_each http py [] rets s = (Inr rets, s)"
| "cancel_each http py ((order, ticker, amount, market_code) # rest) rets s =
     (case cancel_os_order http py order ticker market_code (Some amount) s of
        (Inl e, s') \<Rightarrow> (Inl e, s')
      | (Inr ret, s') \<Rightarrow> cancel_each http py rest (rets @ [ret]) s')"

definition cancel_all_os_orders ::
  "transport \<Rightarrow> py_env \<Rightarrow> (string \<Rightarrow> string + string) \<Rightarrow> string \<times> string \<Rightarrow> string list \<Rightarrow>
   json list action" where
  "cancel_all_os_orders http py to_4 labels names s =
     (case get_os_orders to_4 labels names s of
        (Inl e, s') \<Rightarrow> (Inl e, s')
      | (Inr None, s') \<Rightarrow> (Inl (AttributeError ''NoneType'' ''index''), s')
      | (Inr (Some data), s') \<Rightarrow>
          (let orders = map label data in
           case df_column ''pdno'' data of
             Inl e \<Rightarrow> (Inl e, s')
           | Inr tickers \<Rightarrow>
               (case df_column ''ovrs_excg_cd'' data of
                  Inl e \<Rightarrow> (Inl e, s')
                | Inr markets \<Rightarrow>
                    (case df_column ''nccs_qty'' data of
                       Inl e \<Rightarrow> (Inl e, s')
                     | Inr amounts \<Rightarrow>
                         cancel_each http py
                           (zip orders (zip tickers (zip amounts markets))) [] s'))))"

section \<open>Synthetic servers\<close>

text \<open>
  A server that answers the \<open>k\<close>-th request it receives with the \<open>k\<close>-th element of a
  sequence, whatever the request: the fetch function of the spec's synthetic page
  sequences. \<open>page_sequence\<close> makes the sequence from a finite list of pages; past its
  end the server fails.
\<close>

definition serve :: "(nat \<Rightarrow> string + APIResponse) \<Rightarrow> transport" where
  "serve f history w = f (length history)"

definition page_sequence :: "APIResponse list \<Rightarrow> nat \<Rightarrow> string + APIResponse" where
  "page_sequence pages k = (if k < length pages then Inr (pages ! k) else Inl ''no more pages'')"

text \<open>The extra parameters that the pager hands to call \<open>k\<close> (counted from 0) along pages \<open>p\<close>.\<close>

definition cursor_at :: "bool \<Rightarrow> (nat \<Rightarrow> APIResponse) \<Rightarrow> nat \<Rightarrow> json option" where
  "cursor_at is_kr p k =
     (case k of 0 \<Rightarrow> None | Suc j \<Rightarrow> Some (continuation_params is_kr (p j)))"

text \<open>
  The request functions that the client hands to the pager, each with the \<open>is_kr\<close> flag of
  that call: the balance queries and the order-history queries of both families.
\<close>

definition paged_queries ::
  "transport \<Rightarrow> (string \<Rightarrow> string + string) \<Rightarrow> string \<Rightarrow> string \<times> string \<Rightarrow>
   ((json option \<Rightarrow> json option \<Rightarrow> APIResponse action) \<times> bool) list" where
  "paged_queries http currency market_code dates =
     [(get_kr_total_balance http, True),
      (get_os_total_balance http currency market_code, False),
      (get_order_history http dates True ''00'', True),
      (get_order_history http dates False ''00'', False)]"

text \<open>
  The request that a request function puts on the wire for given extra parameters, on a
  client with account \<open>a\<close> that has sent nothing yet.
\<close>

definition wire_of ::
  "(json option \<Rightarrow> json option \<Rightarrow> APIResponse action) \<Rightarrow> account \<Rightarrow> bool \<Rightarrow> json option \<Rightarrow> wire" where
  "wire_of rf a r ep =
     last (sent (snd (rf None ep \<lparr>account = Some a, domain_is_real = r, sent = []\<rparr>)))"

text \<open>
  Call \<open>j\<close> is answered with a page that asks for more data and that the row mapper
  accepts: the pager goes on to call \<open>j + 1\<close>.
\<close>

definition continues ::
  "(nat \<Rightarrow> string + APIResponse) \<Rightarrow> (APIResponse \<Rightarrow> exn + DataFrame) \<Rightarrow> nat \<Rightarrow> bool" where
  "continues f to_dataframe j =
     (case f j of
        Inl e \<Rightarrow> False
      | Inr pg \<Rightarrow> has_more pg \<and> (case to_dataframe pg of Inl e \<Rightarrow> False | Inr df \<Rightarrow> True))"

section \<open>The spec's end-to-end scenario\<close>

text \<open>
  A client with an account, a first page with rows A and B that asks for more data and
  returns the cursor (W, X), a second and terminal page with rows B and C, and a row
  mapper that takes the rows of the first output as they are.
\<close>

definition scenario_client :: Api where
  "scenario_client =
     \<lparr>account = Some \<lparr>account_code = ''12345678'', product_code = ''01''\<rparr>,
      domain_is_real = True, sent = []\<rparr>"

definition scenario_page1 :: APIResponse where
  "scenario_page1 =
     \<lparr>ok = True, tr_cont = ''F'', forward_key = ''W'', next_key = ''X'', body = Map.empty,
      body_output = None, outputs = [Rows [[(''pdno'', ''A'')], [(''pdno'', ''B'')]]]\<rparr>"

definition scenario_page2 :: APIResponse where
  "scenario_page2 =
     \<lparr>ok = True, tr_cont = ''D'', forward_key = '''', next_key = '''', body = Map.empty,
      body_output = None, outputs = [Rows [[(''pdno'', ''B'')], [(''pdno'', ''C'')]]]\<rparr>"

definition scenario_rows :: "APIResponse \<Rightarrow> exn + DataFrame" where
  "scenario_rows res =
     (case outputs res of [] \<Rightarrow> Inl IndexError | out # _ \<Rightarrow> pd_DataFrame out)"

section \<open>Page sequences\<close>

text \<open>
  A page sequence \<open>p1 \<dots> pn\<close> for one paged query: the pages before the last ask for more
  data, the last page carries a terminal flag, and the row mapper of the query accepts
  every page. \<open>frames_of\<close> is what the row mapper makes of the pages.
\<close>

definition well_paged :: "(APIResponse \<Rightarrow> exn + DataFrame) \<Rightarrow> APIResponse list \<Rightarrow> bool" where
  "well_paged to_dataframe pages =
     (pages \<noteq> [] \<and> list_all has_more (butlast pages) \<and> \<not> has_more (last pages) \<and>
      list_all (\<lambda>p. case to_dataframe p of Inl e \<Rightarrow> False | Inr df \<Rightarrow> True) pages)"

definition frames_of :: "(APIResponse \<Rightarrow> exn + DataFrame) \<Rightarrow> APIResponse list \<Rightarrow> DataFrame list" where
  "frames_of to_dataframe pages =
     map (\<lambda>p. case to_dataframe p of Inl e \<Rightarrow> [] | Inr df \<Rightarrow> df) pages"


text \<open>
  A page with zero rows: the first output, and the entry \<^verbatim>\<open>output\<close> of the body that the
  overseas order history reads, both have length zero.
\<close>

definition zero_rows :: "APIResponse \<Rightarrow> bool" where
  "zero_rows res =
     ((case outputs res of [] \<Rightarrow> False | out # _ \<Rightarrow> output_len out = 0) \<and>
      (case body_output res of None \<Rightarrow> False | Some out \<Rightarrow> output_len out = 0))"

text \<open>
  What a run has put on the wire: the number of requests, and a parameter of request \<open>k\<close>
  (counted from 0).
\<close>

definition requests_sent :: "('r \<times> Api) option \<Rightarrow> nat option" where
  "requests_sent run = map_option (\<lambda>(r, s'). length (sent s')) run"

definition sent_param :: "('r \<times> Api) option \<Rightarrow> nat \<Rightarrow> string \<Rightarrow> string option" where
  "sent_param run k name =
     (case run of
        None \<Rightarrow> None
      | Some (r, s') \<Rightarrow>
          (if k < length (sent s') then params (request (sent s' ! k)) name else None))"

section \<open>Example pages\<close>



definition example_page :: "string \<Rightarrow> jrecord list \<Rightarrow> APIResponse" where
  "example_page flag rows =
     \<lparr>ok = True, tr_cont = flag, forward_key = ''W'', next_key = ''X'', body = Map.empty,
      body_output = Some (Rows rows), outputs = [Rows rows]\<rparr>"



text \<open>A currency table that knows every market.\<close>

definition example_currency :: "string \<Rightarrow> string + string" where
  "example_currency market_code = Inr ''USD''"





section \<open>Properties of the market table\<close>

lemma Market_getitem_name: "Market_getitem (Market_name m) = Inr m"
  by (cases m) (simp_all add: Market_getitem_def Market_members_def)

lemma Market_getitem_unknown:
  "code \<notin> set Market_get_all \<Longrightarrow> Market_getitem code = Inl (KeyError code)"
  by (auto simp: Market_getitem_def Market_get_all_def Market_members_def)

lemma Country_call_div10:
  "\<exists>c. Country_call (Market_value m div 10) = Inr c \<and> Country_value c = Market_value m div 10"
  by (cases m) (simp_all add: Country_call_def Country_members_def)

text \<open>
  C9. For every name of a \<open>Market\<close> member, \<open>get_country_by_market_code\<close> returns the
  name of the \<open>Country\<close> member whose value is the market's value floor-divided by ten
  (NASD, NYSE, AMEX give USA; SEHK gives HK; TKSE gives JP; SHAA gives CN_SHA; SZAA
  gives CN_SZX; HASE and VNSE give VN), and for every other string it raises
  \<^verbatim>\<open>KeyError\<close>.
\<close>

theorem get_country_by_market_code_table:
  "(\<forall>m. \<exists>c. Country_value c = Market_value m div 10 \<and>
          get_country_by_market_code (Market_name m) = Inr (Country_name c)) \<and>
   get_country_by_market_code ''NASD'' = Inr ''USA'' \<and>
   get_country_by_market_code ''NYSE'' = Inr ''USA'' \<and>
   get_country_by_market_code ''AMEX'' = Inr ''USA'' \<and>
   get_country_by_market_code ''SEHK'' = Inr ''HK'' \<and>
   get_country_by_market_code ''TKSE'' = Inr ''JP'' \<and>
   get_country_by_market_code ''SHAA'' = Inr ''CN_SHA'' \<and>
   get_country_by_market_code ''SZAA'' = Inr ''CN_SZX'' \<and>
   get_country_by_market_code ''HASE'' = Inr ''VN'' \<and>
   get_country_by_market_code ''VNSE'' = Inr ''VN'' \<and>
   (code \<notin> Market_name ` UNIV \<longrightarrow> get_country_by_market_code code = Inl (KeyError code))"
proof -
  have members: "\<exists>c. Country_value c = Market_value m div 10 \<and>
      get_country_by_market_code (Market_name m) = Inr (Country_name c)" for m
    using Country_call_div10 [of m]
    by (auto simp: get_country_by_market_code_def Market_getitem_name)
  have table: "get_country_by_market_code (Market_name m) =
      Inr (case m of NASD \<Rightarrow> ''USA'' | NYSE \<Rightarrow> ''USA'' | AMEX \<Rightarrow> ''USA'' | SEHK \<Rightarrow> ''HK''
           | TKSE \<Rightarrow> ''JP'' | SHAA \<Rightarrow> ''CN_SHA'' | SZAA \<Rightarrow> ''CN_SZX'' | HASE \<Rightarrow> ''VN''
           | VNSE \<Rightarrow> ''VN'')" for m
    unfolding get_country_by_market_code_def Market_getitem_name
    by (cases m) (simp_all add: Country_call_def Country_members_def)
  have all_names: "Market_name ` UNIV = set Market_get_all"
  proof
    show "Market_name ` UNIV \<subseteq> set Market_get_all"
    proof
      fix x assume "x \<in> Market_name ` UNIV"
      then obtain m where "x = Market_name m" by blast
      then show "x \<in> set Market_get_all"
        by (cases m) (simp_all add: Market_get_all_def Market_members_def)
    qed
    show "set Market_get_all \<subseteq> Market_name ` UNIV"
      by (auto simp: Market_get_all_def)
  qed
  have unknown: "code \<notin> Market_name ` UNIV \<longrightarrow>
      get_country_by_market_code code = Inl (KeyError code)"
    using Market_getitem_unknown [of code]
    by (simp add: all_names get_country_by_market_code_def)
  show ?thesis
    using members table [of NASD] table [of NYSE] table [of AMEX] table [of SEHK]
      table [of TKSE] table [of SHAA] table [of SZAA] table [of HASE] table [of VNSE] unknown
    by simp
qed

theorem get_country_by_market_code_table_witness:
  "''KRX'' \<notin> Market_name ` UNIV \<and>
   get_country_by_market_code ''KRX'' = Inl (KeyError ''KRX'') \<and>
   get_country_by_market_code ''nasd'' = Inl (KeyError ''nasd'')"
proof -
  have notin: "c \<notin> Market_name ` UNIV" if "\<And>m. Market_name m \<noteq> c" for c
    using that by auto
  have k: "''KRX'' \<notin> Market_name ` UNIV"
    by (rule notin) (case_tac m; simp)
  have n: "''nasd'' \<notin> Market_name ` UNIV"
    by (rule notin) (case_tac m; simp)
  show ?thesis
    using k n get_country_by_market_code_table [of "''KRX''"]
      get_country_by_market_code_table [of "''nasd''"]
    by simp
qed

section \<open>Properties of first-seen de-duplication\<close>



lemma first_seen_subset: "set (first_seen key seen xs) \<subseteq> set xs"
  by (induction xs arbitrary: seen) auto









section \<open>Properties of the pager\<close>

lemma loop_step:
  assumes "rf None ep s = (Inr res, s')" "to_df res = Inr df" "has_more res"
  shows "continuous_query_loop rf to_df is_kr ep frames s =
         continuous_query_loop rf to_df is_kr (Some (continuation_params is_kr res))
           (frames @ [df]) s'"
  by (subst continuous_query_loop.simps) (simp add: assms)

lemma loop_last:
  assumes "rf None ep s = (Inr res, s')" "to_df res = Inr df" "\<not> has_more res"
  shows "continuous_query_loop rf to_df is_kr ep frames s =
         Some (Inr (aggregate (frames @ [df])), s')"
  by (subst continuous_query_loop.simps) (simp add: assms)


lemma loop_mapper_raise:
  assumes "rf None ep s = (Inr res, s')" "to_df res = Inl e"
  shows "continuous_query_loop rf to_df is_kr ep frames s = Some (Inl e, s')"
  by (subst continuous_query_loop.simps) (simp add: assms)

lemma loop_run:
  assumes rf: "\<And>ep s. account s = Some a \<Longrightarrow> domain_is_real s = r \<Longrightarrow>
             rf None ep s =
               ((case f (length (sent s)) of Inl e \<Rightarrow> Inl (External e) | Inr res \<Rightarrow> Inr res),
                s\<lparr>sent := sent s @ [mk ep]\<rparr>)"
    and pages: "\<And>j. j < k \<Longrightarrow> f j = Inr (p j) \<and> has_more (p j) \<and> to_df (p j) = Inr (d j)"
    and s: "account s = Some a" "domain_is_real s = r" "sent s = []"
  shows "continuous_query_loop rf to_df is_kr None [] s =
         continuous_query_loop rf to_df is_kr (cursor_at is_kr p k) (map d [0..<k])
           (s\<lparr>sent := map (\<lambda>j. mk (cursor_at is_kr p j)) [0..<k]\<rparr>)"
  using pages
proof (induction k)
  case 0
  have "s\<lparr>sent := []\<rparr> = s" using s(3) by (cases s) simp
  then show ?case by (simp add: cursor_at_def)
next
  case (Suc k)
  let ?s = "s\<lparr>sent := map (\<lambda>j. mk (cursor_at is_kr p j)) [0..<k]\<rparr>"
  have pk: "f k = Inr (p k)" "has_more (p k)" "to_df (p k) = Inr (d k)"
    using Suc.prems [of k] by simp_all
  have run: "rf None (cursor_at is_kr p k) ?s =
        (Inr (p k), s\<lparr>sent := map (\<lambda>j. mk (cursor_at is_kr p j)) [0..<Suc k]\<rparr>)"
    using rf [of ?s "cursor_at is_kr p k"] s pk by simp
  have "continuous_query_loop rf to_df is_kr None [] s =
        continuous_query_loop rf to_df is_kr (cursor_at is_kr p k) (map d [0..<k]) ?s"
    using Suc.IH Suc.prems by simp
  also have "\<dots> = continuous_query_loop rf to_df is_kr (Some (continuation_params is_kr (p k)))
        (map d [0..<k] @ [d k]) (s\<lparr>sent := map (\<lambda>j. mk (cursor_at is_kr p j)) [0..<Suc k]\<rparr>)"
    using loop_step [of rf "cursor_at is_kr p k" ?s "p k" _ to_df "d k" is_kr "map d [0..<k]"] run pk
    by simp
  finally show ?case by (simp add: cursor_at_def)
qed

lemma loop_diverges:
  assumes rf: "\<And>ep s. account s = Some a \<Longrightarrow> domain_is_real s = r \<Longrightarrow>
             rf None ep s =
               ((case f (length (sent s)) of Inl e \<Rightarrow> Inl (External e) | Inr res \<Rightarrow> Inr res),
                s\<lparr>sent := sent s @ [mk ep]\<rparr>)"
    and pages: "\<And>j. \<exists>pg df. f j = Inr pg \<and> has_more pg \<and> to_df pg = Inr df"
    and s: "account s = Some a" "domain_is_real s = r"
  shows "continuous_query_loop rf to_df is_kr ep frames s = None"
proof (rule ccontr)
  assume "continuous_query_loop rf to_df is_kr ep frames s \<noteq> None"
  then obtain y where y: "continuous_query_loop rf to_df is_kr ep frames s = Some y" by auto
  have "rf = rf \<and> to_df = to_df \<and> account s = Some a \<and> domain_is_real s = r \<longrightarrow> False"
  proof (rule continuous_query_loop.raw_induct [where P = "\<lambda>rf' to_df' k' ep' fr' s' y'.
      rf' = rf \<and> to_df' = to_df \<and> account s' = Some a \<and> domain_is_real s' = r \<longrightarrow> False", OF _ y])
    fix loop rf' to_df' k' ep' fr' s' y'
    assume IH: "\<And>rf'' to_df'' k'' ep'' fr'' s'' y''. loop rf'' to_df'' k'' ep'' fr'' s'' = Some y'' \<Longrightarrow>
        rf'' = rf \<and> to_df'' = to_df \<and> account s'' = Some a \<and> domain_is_real s'' = r \<longrightarrow> False"
      and body: "(case rf' None ep' s' of
          (Inl e, s'') \<Rightarrow> Some (Inl e, s'')
        | (Inr res, s'') \<Rightarrow>
            (case to_df' res of
               Inl e \<Rightarrow> Some (Inl e, s'')
             | Inr df \<Rightarrow>
                 if has_more res
                 then loop rf' to_df' k' (Some (continuation_params k' res)) (fr' @ [df]) s''
                 else Some (Inr (aggregate (fr' @ [df])), s''))) = Some y'"
    show "rf' = rf \<and> to_df' = to_df \<and> account s' = Some a \<and> domain_is_real s' = r \<longrightarrow> False"
    proof
      assume h: "rf' = rf \<and> to_df' = to_df \<and> account s' = Some a \<and> domain_is_real s' = r"
      obtain pg df where pg: "f (length (sent s')) = Inr pg" "has_more pg" "to_df pg = Inr df"
        using pages [of "length (sent s')"] by blast
      have run: "rf None ep' s' = (Inr pg, s'\<lparr>sent := sent s' @ [mk ep']\<rparr>)"
        using rf [of s' ep'] h pg by simp
      from body have "loop rf to_df k' (Some (continuation_params k' pg)) (fr' @ [df])
            (s'\<lparr>sent := sent s' @ [mk ep']\<rparr>) = Some y'"
        using h run pg by simp
      from IH [OF this] h show False by simp
    qed
  qed
  with s show False by simp
qed

section \<open>The paged queries against a synthetic server\<close>

lemma paged_answers:
  assumes "(rf, is_kr) \<in> set (paged_queries (serve f) currency market_code dates)"
    and "currency market_code = Inr ccy"
    and "account s = Some a" "domain_is_real s = r"
  shows "rf None ep s =
           ((case f (length (sent s)) of Inl e \<Rightarrow> Inl (External e) | Inr res \<Rightarrow> Inr res),
            s\<lparr>sent := sent s @ [wire_of rf a r ep]\<rparr>)"
  using assms
  by (auto simp: paged_queries_def wire_of_def get_kr_total_balance_def
      get_os_total_balance_def get_total_balance_def get_order_history_def
      Api_send_get_request_def send_wire_def serve_def Let_def)

lemma merge_json_pair: "merge_json [m, n] = m ++ n"
  by (simp add: merge_json_def)


lemma paged_run:
  assumes q: "(rf, is_kr) \<in> set (paged_queries (serve f) currency market_code dates)"
    and cur: "currency market_code = Inr ccy"
    and s: "account s = Some a" "sent s = []"
    and pages: "\<And>j. j < n \<Longrightarrow> f j = Inr (p j) \<and> has_more (p j) \<and> to_df (p j) = Inr (d j)"
  shows "send_continuous_query rf to_df is_kr s =
     (let S = s\<lparr>sent := map (\<lambda>j. wire_of rf a (domain_is_real s) (cursor_at is_kr p j))
                           [0..<Suc n]\<rparr> in
      case f n of
        Inl e \<Rightarrow> Some (Inl (External e), S)
      | Inr pg \<Rightarrow>
          (case to_df pg of
             Inl e \<Rightarrow> Some (Inl e, S)
           | Inr df \<Rightarrow>
               if has_more pg
               then continuous_query_loop rf to_df is_kr (Some (continuation_params is_kr pg))
                      (map d [0..<n] @ [df]) S
               else Some (Inr (aggregate (map d [0..<n] @ [df])), S)))"
proof -
  let ?mk = "wire_of rf a (domain_is_real s)"
  let ?s = "s\<lparr>sent := map (\<lambda>j. ?mk (cursor_at is_kr p j)) [0..<n]\<rparr>"
  have rf: "rf None ep t =
      ((case f (length (sent t)) of Inl e \<Rightarrow> Inl (External e) | Inr res \<Rightarrow> Inr res),
       t\<lparr>sent := sent t @ [?mk ep]\<rparr>)"
    if "account t = Some a" "domain_is_real t = domain_is_real s" for ep t
    using paged_answers [OF q cur that] .
  have "send_continuous_query rf to_df is_kr s =
        continuous_query_loop rf to_df is_kr (cursor_at is_kr p n) (map d [0..<n]) ?s"
    unfolding send_continuous_query_def
    by (rule loop_run [where a = a and r = "domain_is_real s" and f = f and mk = ?mk])
       (use rf pages s in auto)
  moreover have "rf None (cursor_at is_kr p n) ?s =
      ((case f n of Inl e \<Rightarrow> Inl (External e) | Inr res \<Rightarrow> Inr res),
       s\<lparr>sent := map (\<lambda>j. ?mk (cursor_at is_kr p j)) [0..<Suc n]\<rparr>)"
    using rf [of ?s "cursor_at is_kr p n"] s by simp
  ultimately show ?thesis
    by (subst (asm) continuous_query_loop.simps)
       (simp add: Let_def split: sum.splits)
qed

lemma continuesD:
  "continues f to_df j \<Longrightarrow>
   f j = Inr (projr (f j)) \<and> has_more (projr (f j)) \<and>
   to_df (projr (f j)) = Inr (projr (to_df (projr (f j))))"
  by (auto simp: continues_def split: sum.splits)

lemma paged_stop:
  assumes q: "(rf, is_kr) \<in> set (paged_queries (serve f) currency market_code dates)"
    and cur: "currency market_code = Inr ccy"
    and s: "account s = Some a" "sent s = []"
    and before: "\<And>j. j < n \<Longrightarrow> continues f to_df j"
    and stop: "\<not> continues f to_df n"
  shows "send_continuous_query rf to_df is_kr s =
     Some ((case f n of
              Inl e \<Rightarrow> Inl (External e)
            | Inr pg \<Rightarrow>
                (case to_df pg of
                   Inl e \<Rightarrow> Inl e
                 | Inr df \<Rightarrow>
                     Inr (aggregate (map (\<lambda>j. projr (to_df (projr (f j)))) [0..<n] @ [df])))),
           s\<lparr>sent := map (\<lambda>j. wire_of rf a (domain_is_real s)
                                 (cursor_at is_kr (\<lambda>j. projr (f j)) j)) [0..<Suc n]\<rparr>)"
proof -
  have pages: "f j = Inr (projr (f j)) \<and> has_more (projr (f j)) \<and>
      to_df (projr (f j)) = Inr (projr (to_df (projr (f j))))" if "j < n" for j
    using continuesD [OF before [OF that]] .
  have eq: "send_continuous_query rf to_df is_kr s =
     (let S = s\<lparr>sent := map (\<lambda>j. wire_of rf a (domain_is_real s)
                                   (cursor_at is_kr (\<lambda>j. projr (f j)) j)) [0..<Suc n]\<rparr> in
      case f n of
        Inl e \<Rightarrow> Some (Inl (External e), S)
      | Inr pg \<Rightarrow>
          (case to_df pg of
             Inl e \<Rightarrow> Some (Inl e, S)
           | Inr df \<Rightarrow>
               if has_more pg
               then continuous_query_loop rf to_df is_kr (Some (continuation_params is_kr pg))
                      (map (\<lambda>j. projr (to_df (projr (f j)))) [0..<n] @ [df]) S
               else Some (Inr (aggregate (map (\<lambda>j. projr (to_df (projr (f j)))) [0..<n] @ [df])), S)))"
    by (rule paged_run [where p = "\<lambda>j. projr (f j)"
          and d = "\<lambda>j. projr (to_df (projr (f j)))", OF q cur s]) (use pages in simp)
  show ?thesis
    using stop unfolding eq
    by (auto simp: continues_def Let_def split: sum.splits)
qed

lemma paged_diverges:
  assumes q: "(rf, is_kr) \<in> set (paged_queries (serve f) currency market_code dates)"
    and cur: "currency market_code = Inr ccy"
    and s: "account s = Some a"
    and all: "\<And>j. continues f to_df j"
  shows "send_continuous_query rf to_df is_kr s = None"
  unfolding send_continuous_query_def
proof (rule loop_diverges [where a = a and r = "domain_is_real s" and f = f
      and mk = "wire_of rf a (domain_is_real s)"])
  show "rf None ep t =
      ((case f (length (sent t)) of Inl e \<Rightarrow> Inl (External e) | Inr res \<Rightarrow> Inr res),
       t\<lparr>sent := sent t @ [wire_of rf a (domain_is_real s) ep]\<rparr>)"
    if "account t = Some a" "domain_is_real t = domain_is_real s" for ep t
    using paged_answers [OF q cur that] .
  show "\<exists>pg df. f j = Inr pg \<and> has_more pg \<and> to_df pg = Inr df" for j
    using continuesD [OF all [of j]] by blast
qed (use s in simp_all)

lemma paged_first_stop:
  assumes q: "(rf, is_kr) \<in> set (paged_queries (serve f) currency market_code dates)"
    and cur: "currency market_code = Inr ccy"
    and s: "account s = Some a" "sent s = []"
    and run: "send_continuous_query rf to_df is_kr s \<noteq> None"
  shows "\<exists>n. \<not> continues f to_df n \<and> (\<forall>j<n. continues f to_df j)"
proof -
  have "\<exists>j. \<not> continues f to_df j"
    using paged_diverges [OF q cur s(1), of to_df] run by blast
  then have "\<not> continues f to_df (LEAST j. \<not> continues f to_df j)"
    by (rule LeastI_ex)
  moreover have "\<forall>j<(LEAST j. \<not> continues f to_df j). continues f to_df j"
    using not_less_Least by blast
  ultimately show ?thesis by blast
qed

lemma map_nth_frames: "map (\<lambda>j. g (xs ! j)) [0..<length xs] = map g xs"
proof -
  have "map g xs = map g (map ((!) xs) [0..<length xs])"
    by (simp only: map_nth)
  also have "\<dots> = map (\<lambda>j. g (xs ! j)) [0..<length xs]"
    by (simp only: map_map comp_def)
  finally show ?thesis by (rule sym)
qed

lemma paged_least_stop:
  assumes "\<not> continues f to_df n"
  shows "\<exists>m\<le>n. \<not> continues f to_df m \<and> (\<forall>j<m. continues f to_df j)"
proof -
  let ?m = "LEAST j. \<not> continues f to_df j"
  have "\<not> continues f to_df ?m" using assms by (rule LeastI)
  moreover have "?m \<le> n" using assms by (rule Least_le)
  moreover have "\<forall>j<?m. continues f to_df j" using not_less_Least by blast
  ultimately show ?thesis by blast
qed

lemma scenario_frames:
  "scenario_rows scenario_page1 =
     Inr [\<lparr>label = Integer 0, cells = [(''pdno'', Text ''A'')]\<rparr>,
          \<lparr>label = Integer 1, cells = [(''pdno'', Text ''B'')]\<rparr>]"
  "scenario_rows scenario_page2 =
     Inr [\<lparr>label = Integer 0, cells = [(''pdno'', Text ''B'')]\<rparr>,
          \<lparr>label = Integer 1, cells = [(''pdno'', Text ''C'')]\<rparr>]"
  by (simp_all add: scenario_rows_def scenario_page1_def scenario_page2_def pd_DataFrame_def
      DataFrame_of_records_def)

lemma scenario_flags: "has_more scenario_page1" "\<not> has_more scenario_page2"
  by (simp_all add: has_more_def scenario_page1_def scenario_page2_def)

lemma scenario_query:
  "(get_kr_total_balance (serve f), True) \<in>
     set (paged_queries (serve f) (\<lambda>m. Inr ''USD'') ''NASD'' (''20240101'', ''20240102''))"
  by (simp add: paged_queries_def)

lemma scenario_account: "account scenario_client =
    Some \<lparr>account_code = ''12345678'', product_code = ''01''\<rparr>" "sent scenario_client = []"
  by (simp_all add: scenario_client_def)

section \<open>Page sequences against a synthetic server\<close>

lemma loop_run_from:
  assumes rf: "\<And>ep t. account t = Some a \<Longrightarrow> domain_is_real t = r \<Longrightarrow>
             rf None ep t =
               ((case f (length (sent t)) of Inl e \<Rightarrow> Inl (External e) | Inr res \<Rightarrow> Inr res),
                t\<lparr>sent := sent t @ [mk ep]\<rparr>)"
    and pages: "\<And>j. j < k \<Longrightarrow>
             f (length (sent s) + j) = Inr (p j) \<and> has_more (p j) \<and> to_df (p j) = Inr (d j)"
    and s: "account s = Some a" "domain_is_real s = r"
  shows "continuous_query_loop rf to_df is_kr None [] s =
         continuous_query_loop rf to_df is_kr (cursor_at is_kr p k) (map d [0..<k])
           (s\<lparr>sent := sent s @ map (\<lambda>j. mk (cursor_at is_kr p j)) [0..<k]\<rparr>)"
  using pages
proof (induction k)
  case 0
  have "s\<lparr>sent := sent s\<rparr> = s" by (cases s) simp
  then show ?case by (simp add: cursor_at_def)
next
  case (Suc k)
  let ?s = "s\<lparr>sent := sent s @ map (\<lambda>j. mk (cursor_at is_kr p j)) [0..<k]\<rparr>"
  have pk: "f (length (sent s) + k) = Inr (p k)" "has_more (p k)" "to_df (p k) = Inr (d k)"
    using Suc.prems [of k] by simp_all
  have run: "rf None (cursor_at is_kr p k) ?s =
        (Inr (p k), s\<lparr>sent := sent s @ map (\<lambda>j. mk (cursor_at is_kr p j)) [0..<Suc k]\<rparr>)"
    using rf [of ?s "cursor_at is_kr p k"] s pk by simp
  have "continuous_query_loop rf to_df is_kr None [] s =
        continuous_query_loop rf to_df is_kr (cursor_at is_kr p k) (map d [0..<k]) ?s"
    using Suc.IH Suc.prems by simp
  also have "\<dots> = continuous_query_loop rf to_df is_kr (Some (continuation_params is_kr (p k)))
        (map d [0..<k] @ [d k])
        (s\<lparr>sent := sent s @ map (\<lambda>j. mk (cursor_at is_kr p j)) [0..<Suc k]\<rparr>)"
    using loop_step [of rf "cursor_at is_kr p k" ?s "p k" _ to_df "d k" is_kr "map d [0..<k]"] run pk
    by simp
  finally show ?case by (simp add: cursor_at_def)
qed

lemma well_pagedD:
  assumes "well_paged to_df pages"
  shows "pages \<noteq> []"
    and "j < length pages - 1 \<Longrightarrow> has_more (pages ! j)"
    and "\<not> has_more (pages ! (length pages - 1))"
    and "j < length pages \<Longrightarrow> to_df (pages ! j) = Inr (frames_of to_df pages ! j)"
proof -
  show ne: "pages \<noteq> []" using assms by (simp add: well_paged_def)
  show "has_more (pages ! j)" if "j < length pages - 1"
  proof -
    have "butlast pages ! j \<in> set (butlast pages)" using that by simp
    then have "has_more (butlast pages ! j)"
      using assms by (simp add: well_paged_def list_all_iff)
    then show ?thesis using that by (simp add: nth_butlast)
  qed
  show "\<not> has_more (pages ! (length pages - 1))"
    using assms ne by (simp add: well_paged_def last_conv_nth)
  show "to_df (pages ! j) = Inr (frames_of to_df pages ! j)" if "j < length pages"
  proof -
    have "pages ! j \<in> set pages" using that by simp
    then have "case to_df (pages ! j) of Inl e \<Rightarrow> False | Inr df \<Rightarrow> True"
      using assms by (simp add: well_paged_def list_all_iff)
    then show ?thesis using that by (simp add: frames_of_def split: sum.splits)
  qed
qed

lemma query_pages:
  assumes rf: "\<And>ep t. account t = Some a \<Longrightarrow> domain_is_real t = r \<Longrightarrow>
             rf None ep t =
               ((case f (length (sent t)) of Inl e \<Rightarrow> Inl (External e) | Inr res \<Rightarrow> Inr res),
                t\<lparr>sent := sent t @ [mk ep]\<rparr>)"
    and s: "account s = Some a" "domain_is_real s = r"
    and wp: "well_paged to_df pages"
    and f: "\<And>j. j < length pages \<Longrightarrow> f (length (sent s) + j) = Inr (pages ! j)"
  shows "send_continuous_query rf to_df is_kr s =
           Some (Inr (aggregate (frames_of to_df pages)),
                 s\<lparr>sent := sent s @ map (\<lambda>j. mk (cursor_at is_kr (\<lambda>j. pages ! j) j))
                                          [0..<length pages]\<rparr>)"
proof -
  define n where "n = length pages - 1"
  have len: "length pages = Suc n" using well_pagedD(1) [OF wp] by (simp add: n_def)
  let ?p = "\<lambda>j. pages ! j"
  let ?d = "\<lambda>j. frames_of to_df pages ! j"
  let ?ws = "\<lambda>k. map (\<lambda>j. mk (cursor_at is_kr ?p j)) [0..<k]"
  let ?s = "s\<lparr>sent := sent s @ ?ws n\<rparr>"
  have before: "f (length (sent s) + j) = Inr (?p j) \<and> has_more (?p j) \<and> to_df (?p j) = Inr (?d j)"
    if "j < n" for j
    using that f [of j] well_pagedD(2) [OF wp, of j] well_pagedD(4) [OF wp, of j] len
    by simp
  have "send_continuous_query rf to_df is_kr s =
        continuous_query_loop rf to_df is_kr (cursor_at is_kr ?p n) (map ?d [0..<n]) ?s"
    unfolding send_continuous_query_def
    by (rule loop_run_from [where a = a and r = r and f = f and mk = mk])
       (use rf before s in auto)
  moreover have "rf None (cursor_at is_kr ?p n) ?s = (Inr (pages ! n), s\<lparr>sent := sent s @ ?ws (Suc n)\<rparr>)"
    using rf [of ?s "cursor_at is_kr ?p n"] s f [of n] len by simp
  moreover have "to_df (pages ! n) = Inr (?d n)" "\<not> has_more (pages ! n)"
    using well_pagedD(3) [OF wp] well_pagedD(4) [OF wp, of n] len by simp_all
  ultimately have "send_continuous_query rf to_df is_kr s =
      Some (Inr (aggregate (map ?d [0..<n] @ [?d n])), s\<lparr>sent := sent s @ ?ws (Suc n)\<rparr>)"
    using loop_last [of rf "cursor_at is_kr ?p n" ?s "pages ! n" _ to_df "?d n" is_kr "map ?d [0..<n]"]
    by simp
  moreover have "map ?d [0..<n] @ [?d n] = frames_of to_df pages"
  proof -
    have "length (frames_of to_df pages) = Suc n" using len by (simp add: frames_of_def)
    then have "map ?d [0..<Suc n] = frames_of to_df pages"
      using map_nth [of "frames_of to_df pages"] by simp
    then show ?thesis by simp
  qed
  ultimately show ?thesis using len by simp
qed

lemma kr_orders_answers:
  assumes "account s = Some a" "domain_is_real s = r"
  shows "get_kr_orders_once (serve f) None ep s =
           ((case f (length (sent s)) of Inl e \<Rightarrow> Inl (External e) | Inr res \<Rightarrow> Inr res),
            s\<lparr>sent := sent s @ [wire_of (get_kr_orders_once (serve f)) a r ep]\<rparr>)"
  using assms
  by (simp add: wire_of_def get_kr_orders_once_def Api_send_get_request_def send_wire_def
      serve_def Let_def)

lemma os_orders_answers:
  assumes "account s = Some a" "domain_is_real s = r" "to_4 code = Inr code4"
  shows "get_os_orders_once (serve f) to_4 code None ep s =
           ((case f (length (sent s)) of Inl e \<Rightarrow> Inl (External e) | Inr res \<Rightarrow> Inr res),
            s\<lparr>sent := sent s @ [wire_of (get_os_orders_once (serve f) to_4 code) a r ep]\<rparr>)"
  using assms
  by (simp add: wire_of_def get_os_orders_once_def Api_send_get_request_def send_wire_def
      serve_def Let_def)

lemma paged_query_pages:
  assumes q: "(rf, k) \<in> set (paged_queries (serve f) currency market_code dates)"
    and cur: "currency market_code = Inr ccy"
    and s: "account s = Some a"
    and wp: "well_paged to_df pages"
    and f: "\<And>j. j < length pages \<Longrightarrow> f (length (sent s) + j) = Inr (pages ! j)"
  shows "send_continuous_query rf to_df is_kr s =
           Some (Inr (aggregate (frames_of to_df pages)),
                 s\<lparr>sent := sent s @ map (\<lambda>j. wire_of rf a (domain_is_real s)
                                                   (cursor_at is_kr (\<lambda>j. pages ! j) j))
                                          [0..<length pages]\<rparr>)"
proof (rule query_pages [where a = a and r = "domain_is_real s" and f = f])
  show "rf None ep t =
      ((case f (length (sent t)) of Inl e \<Rightarrow> Inl (External e) | Inr res \<Rightarrow> Inr res),
       t\<lparr>sent := sent t @ [wire_of rf a (domain_is_real s) ep]\<rparr>)"
    if "account t = Some a" "domain_is_real t = domain_is_real s" for ep t
    using paged_answers [OF q cur that] .
qed (use s wp f in simp_all)

lemma kr_orders_pages:
  assumes s: "account s = Some a"
    and wp: "well_paged to_df pages"
    and f: "\<And>j. j < length pages \<Longrightarrow> f (length (sent s) + j) = Inr (pages ! j)"
  shows "send_continuous_query (get_kr_orders_once (serve f)) to_df is_kr s =
           Some (Inr (aggregate (frames_of to_df pages)),
                 s\<lparr>sent := sent s @ map (\<lambda>j. wire_of (get_kr_orders_once (serve f)) a
                                                   (domain_is_real s)
                                                   (cursor_at is_kr (\<lambda>j. pages ! j) j))
                                          [0..<length pages]\<rparr>)"
proof (rule query_pages [where a = a and r = "domain_is_real s" and f = f])
  show "get_kr_orders_once (serve f) None ep t =
      ((case f (length (sent t)) of Inl e \<Rightarrow> Inl (External e) | Inr res \<Rightarrow> Inr res),
       t\<lparr>sent := sent t @ [wire_of (get_kr_orders_once (serve f)) a (domain_is_real s) ep]\<rparr>)"
    if "account t = Some a" "domain_is_real t = domain_is_real s" for ep t
    using kr_orders_answers [OF that] .
qed (use s wp f in simp_all)

lemma os_orders_pages:
  assumes s: "account s = Some a"
    and to_4: "to_4 code = Inr code4"
    and wp: "well_paged to_df pages"
    and f: "\<And>j. j < length pages \<Longrightarrow> f (length (sent s) + j) = Inr (pages ! j)"
  shows "send_continuous_query (get_os_orders_once (serve f) to_4 code) to_df is_kr s =
           Some (Inr (aggregate (frames_of to_df pages)),
                 s\<lparr>sent := sent s @ map (\<lambda>j. wire_of (get_os_orders_once (serve f) to_4 code) a
                                                   (domain_is_real s)
                                                   (cursor_at is_kr (\<lambda>j. pages ! j) j))
                                          [0..<length pages]\<rparr>)"
proof (rule query_pages [where a = a and r = "domain_is_real s" and f = f])
  show "get_os_orders_once (serve f) to_4 code None ep t =
      ((case f (length (sent t)) of Inl e \<Rightarrow> Inl (External e) | Inr res \<Rightarrow> Inr res),
       t\<lparr>sent := sent t @ [wire_of (get_os_orders_once (serve f) to_4 code) a
                                (domain_is_real s) ep]\<rparr>)"
    if "account t = Some a" "domain_is_real t = domain_is_real s" for ep t
    using that to_4 by (rule os_orders_answers)
qed (use s wp f in simp_all)




lemma pd_DataFrame_zero: "output_len out = 0 \<Longrightarrow> pd_DataFrame out = Inr []"
  by (cases out) (simp_all add: output_len_def pd_DataFrame_def DataFrame_of_records_def)

lemma df_empty_Nil: "df_empty []"
  by (simp add: df_empty_def df_columns_def)

lemma zero_rows_frames:
  assumes "zero_rows pg"
  shows "kr_balance_to_dataframe to_numeric cf2 pg = Inr []"
    and "os_balance_to_dataframe to_numeric cf2 pg = Inr []"
    and "kr_order_history_to_dataframe cf2 pg = Inr []"
    and "os_order_history_to_dataframe cf2 pg = Inr []"
    and "kr_orders_to_dataframe labels cf2 pg = Inr []"
    and "os_orders_by_flag_to_dataframe to_4 labels cf2 pg = Inr []"
  using assms
  by (auto simp: zero_rows_def kr_balance_to_dataframe_def os_balance_to_dataframe_def
      kr_order_history_to_dataframe_def os_order_history_to_dataframe_def
      kr_orders_to_dataframe_def os_orders_by_flag_to_dataframe_def
      pd_DataFrame_zero df_empty_Nil split: list.splits option.splits)





lemma example_page_flags:
  "has_more (example_page ''F'' rows)" "\<not> has_more (example_page ''D'' rows)"
  "zero_rows (example_page flag [])"
  by (simp_all add: has_more_def example_page_def zero_rows_def output_len_def)

section \<open>Claims about the pager\<close>








text \<open>
  C3. The pager stops exactly at the first response whose continuation flag is terminal:
  when all earlier calls were answered with pages asking for more data, the query
  returns after that call and has sent exactly that many requests. So it returns for every
  server that eventually sends a terminal flag. Nothing bounds the number of iterations:
  against a server whose every page asks for more data the query does not return, and
  for a server and a row mapper that never fail it returns only if some page is terminal.
\<close>

theorem pager_stops_at_terminal_flag:
  assumes q: "(request_function, is_kr) \<in>
               set (paged_queries (serve f) currency market_code dates)"
    and cur: "currency market_code = Inr ccy"
    and s: "account s = Some a" "sent s = []"
  shows "(\<forall>n pg. (\<forall>j<n. continues f to_dataframe j) \<and> f n = Inr pg \<and> \<not> has_more pg \<longrightarrow>
            (\<exists>r s'. send_continuous_query request_function to_dataframe is_kr s = Some (r, s') \<and>
                    length (sent s') = Suc n)) \<and>
         ((\<exists>n pg. f n = Inr pg \<and> \<not> has_more pg) \<longrightarrow>
            send_continuous_query request_function to_dataframe is_kr s \<noteq> None) \<and>
         ((\<forall>j. continues f to_dataframe j) \<longrightarrow>
            send_continuous_query request_function to_dataframe is_kr s = None) \<and>
         ((\<forall>j. \<exists>pg df. f j = Inr pg \<and> to_dataframe pg = Inr df) \<longrightarrow>
            (send_continuous_query request_function to_dataframe is_kr s \<noteq> None) =
            (\<exists>n pg. f n = Inr pg \<and> \<not> has_more pg))"
proof -
  let ?run = "send_continuous_query request_function to_dataframe is_kr s"
  have stops: "\<exists>r s'. ?run = Some (r, s') \<and> length (sent s') = Suc n"
    if bf: "\<forall>j<n. continues f to_dataframe j" and st: "\<not> continues f to_dataframe n" for n
  proof -
    have b: "continues f to_dataframe j" if "j < n" for j
      using bf that by blast
    show ?thesis
      using paged_stop [OF q cur s b st] by simp
  qed
  have terminal: "\<not> continues f to_dataframe n" if "f n = Inr pg" "\<not> has_more pg" for n pg
    using that by (simp add: continues_def)
  have returns: "?run \<noteq> None" if st: "\<not> continues f to_dataframe n" for n
  proof -
    obtain m where "\<not> continues f to_dataframe m" "\<forall>j<m. continues f to_dataframe j"
      using paged_least_stop [OF st] by blast
    then show ?thesis using stops [of m] by auto
  qed
  have forever: "?run = None" if "\<forall>j. continues f to_dataframe j"
    using paged_diverges [OF q cur s(1), of to_dataframe] that by blast
  have only: "\<exists>n pg. f n = Inr pg \<and> \<not> has_more pg"
    if total: "\<forall>j. \<exists>pg df. f j = Inr pg \<and> to_dataframe pg = Inr df" and run: "?run \<noteq> None"
  proof -
    obtain n where n: "\<not> continues f to_dataframe n"
      using paged_first_stop [OF q cur s run] by blast
    obtain pg df where "f n = Inr pg" "to_dataframe pg = Inr df"
      using total by blast
    with n show ?thesis by (auto simp: continues_def)
  qed
  show ?thesis
    using stops terminal returns forever only by blast
qed

theorem pager_stops_at_terminal_flag_witness:
  "send_continuous_query
     (get_kr_total_balance (serve (page_sequence [scenario_page1, scenario_page2])))
     scenario_rows True scenario_client \<noteq> None \<and>
   send_continuous_query (get_kr_total_balance (serve (\<lambda>k. Inr scenario_page1)))
     scenario_rows True scenario_client = None"
proof -
  have "page_sequence [scenario_page1, scenario_page2] (Suc 0) = Inr scenario_page2"
    by (simp add: page_sequence_def)
  then have a: "\<exists>n pg. page_sequence [scenario_page1, scenario_page2] n = Inr pg \<and> \<not> has_more pg"
    using scenario_flags(2) by blast
  have b: "\<forall>j. continues (\<lambda>k. Inr scenario_page1) scenario_rows j"
    by (simp add: continues_def scenario_frames scenario_flags)
  show ?thesis
    using pager_stops_at_terminal_flag [OF scenario_query refl scenario_account,
        of "page_sequence [scenario_page1, scenario_page2]" scenario_rows]
      pager_stops_at_terminal_flag [OF scenario_query refl scenario_account,
        of "\<lambda>k. Inr scenario_page1" scenario_rows] a b
    by blast
qed

text \<open>
  C7. When the HTTP layer fails at some call of a paged query, after pages that asked for
  more data, the error is the result of the whole query: it is not caught and the call is
  not repeated (the failing request is the last one sent), and since the result is the
  error, no rows of the pages fetched before reach the caller.
\<close>

theorem http_error_aborts_paged_query:
  assumes q: "(request_function, is_kr) \<in>
               set (paged_queries (serve f) currency market_code dates)"
    and cur: "currency market_code = Inr ccy"
    and s: "account s = Some a" "sent s = []"
    and before: "\<forall>j<k. continues f to_dataframe j"
    and err: "f k = Inl e"
  shows "\<exists>s'. send_continuous_query request_function to_dataframe is_kr s =
                 Some (Inl (External e), s') \<and>
              length (sent s') = Suc k"
proof -
  have stop: "\<not> continues f to_dataframe k"
    using err by (simp add: continues_def)
  have b: "continues f to_dataframe j" if "j < k" for j
    using before that by blast
  show ?thesis
    using paged_stop [OF q cur s b stop] err by simp
qed

theorem http_error_aborts_paged_query_witness:
  "\<exists>s'. send_continuous_query
           (get_kr_total_balance
              (serve (\<lambda>k. if k = 0 then Inr scenario_page1 else Inl ''connection reset'')))
           scenario_rows True scenario_client =
         Some (Inl (External ''connection reset''), s') \<and>
       length (sent s') = Suc (Suc 0)"
  using http_error_aborts_paged_query [OF scenario_query refl scenario_account,
      of "Suc 0" "\<lambda>k. if k = 0 then Inr scenario_page1 else Inl ''connection reset''"
         scenario_rows "''connection reset''"]
  by (simp add: continues_def scenario_frames scenario_flags)




lemma os_orders_by_flag_run:
  "get_os_orders_by_flag (serve (page_sequence [example_page ''F'' [], example_page ''D'' []])) Inr
     [''NASD'', ''NYSE'', ''AMEX''] labels names d scenario_client =
   Some (Inr [],
         scenario_client\<lparr>sent :=
           [wire_of (get_os_orders_once
                       (serve (page_sequence [example_page ''F'' [], example_page ''D'' []]))
                       Inr ''NASD'')
              \<lparr>account_code = ''12345678'', product_code = ''01''\<rparr> True None,
            wire_of (get_os_orders_once
                       (serve (page_sequence [example_page ''F'' [], example_page ''D'' []]))
                       Inr ''NASD'')
              \<lparr>account_code = ''12345678'', product_code = ''01''\<rparr> True
              (Some (continuation_params d (example_page ''F'' [])))]\<rparr>)"
proof -
  let ?ps = "[example_page ''F'' [], example_page ''D'' []]"
  let ?to_df = "os_orders_by_flag_to_dataframe Inr labels names"
  let ?a = "\<lparr>account_code = ''12345678'', product_code = ''01''\<rparr>"
  have fr: "?to_df (example_page flag []) = Inr []" for flag
    by (simp add: zero_rows_frames example_page_flags)
  have wp: "well_paged ?to_df ?ps" and ag: "aggregate (frames_of ?to_df ?ps) = []"
    by (simp_all add: well_paged_def frames_of_def example_page_flags aggregate_def
        drop_duplicates_def fr)
  have real: "domain_is_real scenario_client" by (simp add: scenario_client_def)
  have "send_continuous_query
          (get_os_orders_once (serve (page_sequence ?ps)) Inr ''NASD'') ?to_df d scenario_client =
      Some (Inr (aggregate (frames_of ?to_df ?ps)),
            scenario_client\<lparr>sent := sent scenario_client @
               map (\<lambda>j. wire_of (get_os_orders_once (serve (page_sequence ?ps)) Inr ''NASD'') ?a
                          (domain_is_real scenario_client) (cursor_at d (\<lambda>j. ?ps ! j) j))
                 [0..<length ?ps]\<rparr>)"
    by (rule os_orders_pages [OF scenario_account(1) refl wp])
       (simp add: page_sequence_def scenario_account(2))
  then have "send_continuous_query
          (get_os_orders_once (serve (page_sequence ?ps)) Inr ''NASD'') ?to_df d scenario_client =
      Some (Inr [],
            scenario_client\<lparr>sent :=
              [wire_of (get_os_orders_once (serve (page_sequence ?ps)) Inr ''NASD'') ?a True None,
               wire_of (get_os_orders_once (serve (page_sequence ?ps)) Inr ''NASD'') ?a True
                 (Some (continuation_params d (example_page ''F'' [])))]\<rparr>)"
    by (simp add: ag scenario_account(2) real cursor_at_def
        upt_rec [of 0] upt_rec [of 1] upt_rec [of "Suc 0"])
  then show ?thesis
    by (simp add: get_os_orders_by_flag_def pd_concat_def)
qed

lemma kr_orders_run:
  "get_kr_orders (serve (page_sequence [example_page ''F'' [], example_page ''D'' []])) labels names
     d scenario_client =
   Some (Inr [],
         scenario_client\<lparr>sent :=
           [wire_of (get_kr_orders_once
                       (serve (page_sequence [example_page ''F'' [], example_page ''D'' []])))
              \<lparr>account_code = ''12345678'', product_code = ''01''\<rparr> True None,
            wire_of (get_kr_orders_once
                       (serve (page_sequence [example_page ''F'' [], example_page ''D'' []])))
              \<lparr>account_code = ''12345678'', product_code = ''01''\<rparr> True
              (Some (continuation_params d (example_page ''F'' [])))]\<rparr>)"
proof -
  let ?ps = "[example_page ''F'' [], example_page ''D'' []]"
  let ?to_df = "kr_orders_to_dataframe labels names"
  let ?a = "\<lparr>account_code = ''12345678'', product_code = ''01''\<rparr>"
  have fr: "?to_df (example_page flag []) = Inr []" for flag
    by (simp add: zero_rows_frames example_page_flags)
  have wp: "well_paged ?to_df ?ps" and ag: "aggregate (frames_of ?to_df ?ps) = []"
    by (simp_all add: well_paged_def frames_of_def example_page_flags aggregate_def
        drop_duplicates_def fr)
  have real: "domain_is_real scenario_client" by (simp add: scenario_client_def)
  have "send_continuous_query (get_kr_orders_once (serve (page_sequence ?ps))) ?to_df d
          scenario_client =
      Some (Inr (aggregate (frames_of ?to_df ?ps)),
            scenario_client\<lparr>sent := sent scenario_client @
               map (\<lambda>j. wire_of (get_kr_orders_once (serve (page_sequence ?ps))) ?a
                          (domain_is_real scenario_client) (cursor_at d (\<lambda>j. ?ps ! j) j))
                 [0..<length ?ps]\<rparr>)"
    by (rule kr_orders_pages [OF scenario_account(1) wp])
       (simp add: page_sequence_def scenario_account(2))
  then show ?thesis
    by (simp add: get_kr_orders_def ag scenario_account(2) real
        cursor_at_def upt_rec [of 0] upt_rec [of 1] upt_rec [of "Suc 0"])
qed

lemma kr_order_history_run:
  "get_kr_order_history (serve (page_sequence [example_page ''F'' [], example_page ''D'' []])) dates
     names scenario_client =
   Some (Inr [],
         scenario_client\<lparr>sent :=
           [wire_of (get_order_history
                       (serve (page_sequence [example_page ''F'' [], example_page ''D'' []]))
                       dates True ''00'')
              \<lparr>account_code = ''12345678'', product_code = ''01''\<rparr> True None,
            wire_of (get_order_history
                       (serve (page_sequence [example_page ''F'' [], example_page ''D'' []]))
                       dates True ''00'')
              \<lparr>account_code = ''12345678'', product_code = ''01''\<rparr> True
              (Some (continuation_params True (example_page ''F'' [])))]\<rparr>)"
proof -
  let ?ps = "[example_page ''F'' [], example_page ''D'' []]"
  let ?to_df = "kr_order_history_to_dataframe names"
  let ?a = "\<lparr>account_code = ''12345678'', product_code = ''01''\<rparr>"
  have fr: "?to_df (example_page flag []) = Inr []" for flag
    by (simp add: zero_rows_frames example_page_flags)
  have wp: "well_paged ?to_df ?ps" and ag: "aggregate (frames_of ?to_df ?ps) = []"
    by (simp_all add: well_paged_def frames_of_def example_page_flags aggregate_def
        drop_duplicates_def fr)
  have real: "domain_is_real scenario_client" by (simp add: scenario_client_def)
  have q: "(get_order_history (serve (page_sequence ?ps)) dates True ''00'', True) \<in>
      set (paged_queries (serve (page_sequence ?ps)) example_currency ''NASD'' dates)"
    by (simp add: paged_queries_def)
  have cur: "example_currency ''NASD'' = Inr ''USD''" by (simp add: example_currency_def)
  have "send_continuous_query (get_order_history (serve (page_sequence ?ps)) dates True ''00'')
          ?to_df True scenario_client =
      Some (Inr (aggregate (frames_of ?to_df ?ps)),
            scenario_client\<lparr>sent := sent scenario_client @
               map (\<lambda>j. wire_of (get_order_history (serve (page_sequence ?ps)) dates True ''00'')
                          ?a (domain_is_real scenario_client) (cursor_at True (\<lambda>j. ?ps ! j) j))
                 [0..<length ?ps]\<rparr>)"
    by (rule paged_query_pages [OF q cur scenario_account(1) wp])
       (simp add: page_sequence_def scenario_account(2))
  then show ?thesis
    by (simp add: get_kr_order_history_def get_kr_order_history_paged_def
        concat_drop_duplicates_def pd_concat_def drop_duplicates_def
        ag scenario_account(2) real
        cursor_at_def upt_rec [of 0] upt_rec [of 1] upt_rec [of "Suc 0"])
qed

lemma cursor_params:
  "params (request (wire_of (get_os_orders_once http Inr ''NASD'') a r
      (Some (continuation_params d (example_page ''F'' []))))) =
   [''CANO'' \<mapsto> account_code a, ''ACNT_PRDT_CD'' \<mapsto> product_code a,
    ''CTX_AREA_FK3'' \<mapsto> '''', ''CTX_AREA_NK3'' \<mapsto> '''',
    ''OVRS_EXCG_CD'' \<mapsto> ''NASD'', ''SORT_SQN'' \<mapsto> ''DS''] ++
   [(''CTX_AREA_FK'' @ (if d then ''1'' else ''3'')) \<mapsto> ''W'',
    (''CTX_AREA_NK'' @ (if d then ''1'' else ''3'')) \<mapsto> ''X'']"
  "params (request (wire_of (get_kr_orders_once http) a r
      (Some (continuation_params d (example_page ''F'' []))))) =
   [''CANO'' \<mapsto> account_code a, ''ACNT_PRDT_CD'' \<mapsto> product_code a,
    ''CTX_AREA_FK1'' \<mapsto> '''', ''CTX_AREA_NK1'' \<mapsto> '''',
    ''INQR_DVSN_1'' \<mapsto> ''0'', ''INQR_DVSN_2'' \<mapsto> ''0''] ++
   [(''CTX_AREA_FK'' @ (if d then ''1'' else ''3'')) \<mapsto> ''W'',
    (''CTX_AREA_NK'' @ (if d then ''1'' else ''3'')) \<mapsto> ''X'']"
  by (simp_all add: wire_of_def get_os_orders_once_def get_kr_orders_once_def
      Api_send_get_request_def send_wire_def Let_def merge_json_pair none_to_empty_dict_def
      continuation_params_def get_continuous_query_code_def example_page_def)

text \<open>
  C4. The cursor reaches the wrong parameters in the open-order queries:
  \<^verbatim>\<open>_get_kr_orders_once\<close> and \<^verbatim>\<open>_get_os_orders_once\<close> fix their own code, and
  \<^verbatim>\<open>get_kr_orders\<close> and \<^verbatim>\<open>get_os_orders_by_flag\<close> hand them to the pager without
  \<^verbatim>\<open>is_kr\<close>, so one of the two runs with the flag of the other family, whatever the default
  is. With the domestic default, the continuation request of the overseas open orders
  carries the cursor (W, X) of the first page under \<^verbatim>\<open>CTX_AREA_FK1\<close>/\<^verbatim>\<open>CTX_AREA_NK1\<close> and
  an empty \<^verbatim>\<open>CTX_AREA_FK3\<close>/\<^verbatim>\<open>CTX_AREA_NK3\<close>; with the overseas default, the
  continuation request of the domestic open orders has it the other way round. The
  order history, which passes \<^verbatim>\<open>is_kr\<close>, carries the cursor under its own names only.
\<close>

theorem open_order_queries_misroute_cursor:
  "(let run = get_os_orders_by_flag
                (serve (page_sequence [example_page ''F'' [], example_page ''D'' []])) Inr
                [''NASD'', ''NYSE'', ''AMEX''] (''sell'', ''buy'') [] True scenario_client in
    map_option fst run = Some (Inr []) \<and>
    requests_sent run = Some 2 \<and>
    sent_param run 1 ''OVRS_EXCG_CD'' = Some ''NASD'' \<and>
    sent_param run 1 ''CTX_AREA_FK3'' = Some '''' \<and>
    sent_param run 1 ''CTX_AREA_NK3'' = Some '''' \<and>
    sent_param run 1 ''CTX_AREA_FK1'' = Some ''W'' \<and>
    sent_param run 1 ''CTX_AREA_NK1'' = Some ''X'') \<and>
   (let run = get_kr_orders
                (serve (page_sequence [example_page ''F'' [], example_page ''D'' []]))
                (''sell'', ''buy'') [] False scenario_client in
    map_option fst run = Some (Inr []) \<and>
    requests_sent run = Some 2 \<and>
    sent_param run 1 ''CTX_AREA_FK1'' = Some '''' \<and>
    sent_param run 1 ''CTX_AREA_NK1'' = Some '''' \<and>
    sent_param run 1 ''CTX_AREA_FK3'' = Some ''W'' \<and>
    sent_param run 1 ''CTX_AREA_NK3'' = Some ''X'') \<and>
   (let run = get_kr_order_history
                (serve (page_sequence [example_page ''F'' [], example_page ''D'' []]))
                (''20240101'', ''20240102'') [] scenario_client in
    requests_sent run = Some 2 \<and>
    sent_param run 1 ''CTX_AREA_FK1'' = Some ''W'' \<and>
    sent_param run 1 ''CTX_AREA_NK1'' = Some ''X'' \<and>
    sent_param run 1 ''CTX_AREA_FK3'' = None \<and>
    sent_param run 1 ''CTX_AREA_NK3'' = None)"
proof -
  have os: "let run = get_os_orders_by_flag
                (serve (page_sequence [example_page ''F'' [], example_page ''D'' []])) Inr
                [''NASD'', ''NYSE'', ''AMEX''] (''sell'', ''buy'') [] True scenario_client in
    map_option fst run = Some (Inr []) \<and>
    requests_sent run = Some 2 \<and>
    sent_param run 1 ''OVRS_EXCG_CD'' = Some ''NASD'' \<and>
    sent_param run 1 ''CTX_AREA_FK3'' = Some '''' \<and>
    sent_param run 1 ''CTX_AREA_NK3'' = Some '''' \<and>
    sent_param run 1 ''CTX_AREA_FK1'' = Some ''W'' \<and>
    sent_param run 1 ''CTX_AREA_NK1'' = Some ''X''"
    unfolding os_orders_by_flag_run Let_def
    by (simp add: requests_sent_def sent_param_def cursor_params)
  have kr: "let run = get_kr_orders
                (serve (page_sequence [example_page ''F'' [], example_page ''D'' []]))
                (''sell'', ''buy'') [] False scenario_client in
    map_option fst run = Some (Inr []) \<and>
    requests_sent run = Some 2 \<and>
    sent_param run 1 ''CTX_AREA_FK1'' = Some '''' \<and>
    sent_param run 1 ''CTX_AREA_NK1'' = Some '''' \<and>
    sent_param run 1 ''CTX_AREA_FK3'' = Some ''W'' \<and>
    sent_param run 1 ''CTX_AREA_NK3'' = Some ''X''"
    unfolding kr_orders_run Let_def
    by (simp add: requests_sent_def sent_param_def cursor_params)
  have hist: "let run = get_kr_order_history
                (serve (page_sequence [example_page ''F'' [], example_page ''D'' []]))
                (''20240101'', ''20240102'') [] scenario_client in
    requests_sent run = Some 2 \<and>
    sent_param run 1 ''CTX_AREA_FK1'' = Some ''W'' \<and>
    sent_param run 1 ''CTX_AREA_NK1'' = Some ''X'' \<and>
    sent_param run 1 ''CTX_AREA_FK3'' = None \<and>
    sent_param run 1 ''CTX_AREA_NK3'' = None"
    unfolding kr_order_history_run Let_def
    by (simp add: requests_sent_def sent_param_def wire_of_def get_order_history_def
        Api_send_get_request_def send_wire_def Let_def merge_json_pair none_to_empty_dict_def
        continuation_params_def get_continuous_query_code_def example_page_def)
  from os kr hist show ?thesis by blast
qed






section \<open>Claims about single requests\<close>

text \<open>
  C6. With no account configured, every operation that reads the account raises before
  anything is sent: the result is an error and the client, with its trace of requests, is
  unchanged. \<^verbatim>\<open>get_kr_buyable_cash\<close> raises the \<^verbatim>\<open>RuntimeError\<close> of its explicit check,
  the request builders fail on the attribute lookup on \<^verbatim>\<open>None\<close>.
\<close>

theorem missing_account_raises_before_request:
  assumes "account s = None"
  shows "get_kr_buyable_cash http str_to_int s = (Inl (RuntimeError AccountNotSet), s) \<and>
         get_total_balance http is_kr eh ep s = (Inl no_account, s) \<and>
         get_kr_total_balance http eh ep s = (Inl no_account, s) \<and>
         (\<exists>e. get_os_total_balance http currency market_code eh ep s =
                (Inl e, s)) \<and>
         get_kr_deposit http str_to_int s = (Inl no_account, s) \<and>
         get_order_history http dates is_kr sell_or_buy eh ep s =
           (Inl no_account, s) \<and>
         send_kr_order http ticker amount price buy s = (Inl no_account, s) \<and>
         (\<exists>e. send_os_order http env ticker market_code amount os_price buy s = (Inl e, s)) \<and>
         (\<exists>e. revise_cancel_os_orders http py order_number order_ticker order_market is_cancel
                 os_price order_amount s = (Inl e, s))"
proof -
  have 1: "get_kr_buyable_cash http str_to_int s = (Inl (RuntimeError AccountNotSet), s)"
    using assms by (simp add: get_kr_buyable_cash_def)
  have 2: "get_total_balance http k h p s = (Inl no_account, s)" for k h p
    using assms by (simp add: get_total_balance_def Let_def split: prod.splits)
  have 3: "get_kr_total_balance http eh ep s = (Inl no_account, s)"
    by (simp add: get_kr_total_balance_def 2)
  have 4: "\<exists>e. get_os_total_balance http currency market_code eh ep s =
      (Inl e, s)"
    by (simp add: get_os_total_balance_def 2 split: sum.splits)
  have 5: "get_kr_deposit http str_to_int s = (Inl no_account, s)"
    by (simp add: get_kr_deposit_def get_kr_total_balance_def 2)
  have 6: "get_order_history http dates is_kr sell_or_buy eh ep s =
      (Inl no_account, s)"
    using assms by (simp add: get_order_history_def Let_def)
  have 7: "send_kr_order http ticker amount price buy s = (Inl no_account, s)"
    using assms by (simp add: send_kr_order_def Let_def split: prod.splits)
  have 8: "\<exists>e. send_os_order http env ticker market_code amount os_price buy s = (Inl e, s)"
    using assms by (simp add: send_os_order_def Let_def split: sum.splits)
  have 9: "\<exists>e. revise_cancel_os_orders http py order_number order_ticker order_market is_cancel
      os_price order_amount s = (Inl e, s)"
    using assms
    by (simp add: revise_cancel_os_orders_def Let_def split: sum.splits)
  show ?thesis using 1 2 3 4 5 6 7 8 9 by simp
qed

theorem missing_account_raises_before_request_witness:
  "get_kr_buyable_cash (serve (\<lambda>k. Inr scenario_page1)) (\<lambda>v. Some 0)
      (scenario_client\<lparr>account := None\<rparr>) =
     (Inl (RuntimeError AccountNotSet), scenario_client\<lparr>account := None\<rparr>) \<and>
   get_kr_total_balance (serve (\<lambda>k. Inr scenario_page1)) None None
      (scenario_client\<lparr>account := None\<rparr>) =
     (Inl (AttributeError ''NoneType'' ''account_code''), scenario_client\<lparr>account := None\<rparr>) \<and>
   sent (scenario_client\<lparr>account := None\<rparr>) = []"
  using missing_account_raises_before_request [of "scenario_client\<lparr>account := None\<rparr>"
      "serve (\<lambda>k. Inr scenario_page1)" "\<lambda>v. Some 0" True None None]
  by (simp add: no_account_def scenario_client_def)

text \<open>
  C8. \<^verbatim>\<open>get_os_orders\<close> returns \<^verbatim>\<open>None\<close> on every call and sends nothing, so
  \<^verbatim>\<open>cancel_all_os_orders\<close> raises on \<^verbatim>\<open>data.index\<close> on every call, with the client
  unchanged: it never reaches a cancel request.
\<close>

theorem get_os_orders_returns_None:
  "get_os_orders to_4 labels names s = (Inr None, s) \<and>
   cancel_all_os_orders http py to_4 labels names s =
     (Inl (AttributeError ''NoneType'' ''index''), s)"
  by (simp add: get_os_orders_def cancel_all_os_orders_def Let_def)

theorem get_os_orders_returns_None_witness:
  "get_os_orders Inr (''S'', ''B'') [] scenario_client = (Inr None, scenario_client) \<and>
   cancel_all_os_orders (serve (\<lambda>k. Inr scenario_page1))
      \<lparr>py_str = (\<lambda>c. ''''), py_int = (\<lambda>c. Some 1), str_float = (\<lambda>x. ''0'')\<rparr>
      Inr (''S'', ''B'') [] scenario_client =
     (Inl (AttributeError ''NoneType'' ''index''), scenario_client) \<and>
   sent scenario_client = []"
  using get_os_orders_returns_None [of Inr "(''S'', ''B'')" "[]" scenario_client
      "serve (\<lambda>k. Inr scenario_page1)"
      "\<lparr>py_str = (\<lambda>c. ''''), py_int = (\<lambda>c. Some 1), str_float = (\<lambda>x. ''0'')\<rparr>"]
  by (simp add: scenario_client_def)

text \<open>
  C10. For every price at or below zero, \<^verbatim>\<open>buy_os_stock\<close> and \<^verbatim>\<open>sell_os_stock\<close> end in
  an error with the client unchanged, so before any request; the error is the
  \<^verbatim>\<open>RuntimeError\<close> of the price guard whenever the market-code lookup that precedes the
  guard returns. For every price above zero that \<^verbatim>\<open>RuntimeError\<close> is not raised.
\<close>

theorem os_order_price_guard:
  "(price \<le> 0 \<longrightarrow>
      snd (buy_os_stock http env market_code ticker amount price s) = s \<and>
      snd (sell_os_stock http env market_code ticker amount price s) = s \<and>
      isl (fst (buy_os_stock http env market_code ticker amount price s)) \<and>
      isl (fst (sell_os_stock http env market_code ticker amount price s)) \<and>
      (\<forall>m. code_to_4 env market_code = Inr m \<longrightarrow>
         buy_os_stock http env market_code ticker amount price s =
           (Inl (RuntimeError OsMarketOrderUnsupported), s) \<and>
         sell_os_stock http env market_code ticker amount price s =
           (Inl (RuntimeError OsMarketOrderUnsupported), s))) \<and>
   (0 < price \<longrightarrow>
      fst (buy_os_stock http env market_code ticker amount price s) \<noteq>
        Inl (RuntimeError OsMarketOrderUnsupported) \<and>
      fst (sell_os_stock http env market_code ticker amount price s) \<noteq>
        Inl (RuntimeError OsMarketOrderUnsupported))"
proof -
  have low: "snd (send_os_order http env ticker market_code amount price buy s) = s \<and>
      isl (fst (send_os_order http env ticker market_code amount price buy s)) \<and>
      (\<forall>m. code_to_4 env market_code = Inr m \<longrightarrow>
         send_os_order http env ticker market_code amount price buy s =
           (Inl (RuntimeError OsMarketOrderUnsupported), s))"
    if "price \<le> 0" for buy
    using that by (simp add: send_os_order_def Let_def split: sum.splits)
  have post: "fst (Api_send_post_request http req raise t) \<noteq>
      Inl (RuntimeError OsMarketOrderUnsupported)" for req raise t
    by (simp add: Api_send_post_request_def get_hash_key_def send_wire_def Let_def
        split: sum.splits option.splits prod.splits)
  have high: "fst (send_os_order http env ticker market_code amount price buy s) \<noteq>
      Inl (RuntimeError OsMarketOrderUnsupported)"
    if "0 < price" for buy
  proof -
    have "fst (case Api_send_post_request http req True s of
                 (Inl e, s') \<Rightarrow> (Inl e, s')
               | (Inr response, s') \<Rightarrow>
                   (case outputs response of
                      [] \<Rightarrow> (Inl IndexError, s')
                    | out # x \<Rightarrow> (Inr out, s'))) \<noteq>
          Inl (RuntimeError OsMarketOrderUnsupported)" for req
      using post [of req True s]
      by (cases "Api_send_post_request http req True s")
         (auto split: sum.splits list.splits)
    then show ?thesis
      using that
      by (simp add: send_os_order_def Let_def no_account_def split: sum.splits option.splits)
  qed
  show ?thesis
    using low high by (simp add: buy_os_stock_def sell_os_stock_def)
qed

theorem os_order_price_guard_witness:
  "buy_os_stock (serve (\<lambda>k. Inr scenario_page1))
      \<lparr>code_to_4 = Inr, order_tr_id = (\<lambda>m b r. Inr ''JTTT1002U''), format_2f = (\<lambda>x. ''0.00'')\<rparr>
      ''NASD'' ''AAPL'' 1 0 scenario_client =
     (Inl (RuntimeError OsMarketOrderUnsupported), scenario_client) \<and>
   fst (sell_os_stock (serve (\<lambda>k. Inr scenario_page1))
      \<lparr>code_to_4 = Inr, order_tr_id = (\<lambda>m b r. Inr ''JTTT1006U''), format_2f = (\<lambda>x. ''150.00'')\<rparr>
      ''NASD'' ''AAPL'' 1 150 scenario_client) \<noteq> Inl (RuntimeError OsMarketOrderUnsupported)"
  using os_order_price_guard [of 0 "serve (\<lambda>k. Inr scenario_page1)"
      "\<lparr>code_to_4 = Inr, order_tr_id = (\<lambda>m b r. Inr ''JTTT1002U''), format_2f = (\<lambda>x. ''0.00'')\<rparr>"
      "''NASD''" "''AAPL''" 1 scenario_client]
    os_order_price_guard [of 150 "serve (\<lambda>k. Inr scenario_page1)"
      "\<lparr>code_to_4 = Inr, order_tr_id = (\<lambda>m b r. Inr ''JTTT1006U''), format_2f = (\<lambda>x. ''150.00'')\<rparr>"
      "''NASD''" "''AAPL''" 1 scenario_client]
  by simp

end
